theory Spec2Isabelle
  imports Complex_Main "HOL-Library.Word" "HOL-Library.Log_Nat"
begin

section \<open>Value primitives\<close>

text \<open>
  The Cython sources compute with Python's \<^verbatim>\<open>Decimal\<close>; it is modelled by \<^typ>\<open>rat\<close>
  (exact arithmetic; the 28-digit context rounding of \<^verbatim>\<open>Decimal\<close> division is not
  modelled). Timestamps are \<^verbatim>\<open>int64_t\<close>: 64-bit words, compared through \<^const>\<open>sint\<close>,
  subtracted with wrap-around. Exceptions are values of \<open>error\<close>; a method that
  mutates \<^verbatim>\<open>self\<close> returns \<open>Inl (e, self')\<close> when it raises \<open>e\<close> and leaves the
  object in state \<open>self'\<close>, and \<open>Inr self'\<close> when it returns.
\<close>

type_synonym int64_t = "64 word"
type_synonym Decimal = rat
type_synonym Currency = string
type_synonym ExecutionId = string
type_synonym InstrumentId = string

datatype error =
  ValueError | KeyError | TypeError | AttributeError | AssertionError
  | DivisionByZero | InvalidOperation

text \<open>
  Modelled from the spec: the enums \<^verbatim>\<open>OrderSide\<close> and \<^verbatim>\<open>PositionSide\<close> (model/c_enums, not
  among the sources); sections 3 and 4.4 name their values.
\<close>

datatype OrderSide = BUY | SELL

datatype PositionSide = FLAT | LONG | SHORT

text \<open>
  Modelled from the spec: \<^verbatim>\<open>Price\<close>, \<^verbatim>\<open>Quantity\<close> and \<^verbatim>\<open>Money\<close> (model/objects.pyx, not
  among the sources). Section 3: prices and quantities are fixed-point numbers with a
  precision in decimal places; \<open>price_value\<close> and \<open>qty_value\<close> are what \<^verbatim>\<open>as_decimal()\<close>
  returns. Money is an amount with a currency.
\<close>

record Price =
  price_value :: Decimal
  price_prec :: nat

record Quantity =
  qty_value :: Decimal
  qty_prec :: nat

record Money =
  amount :: Decimal
  currency :: Currency

definition round_half_even :: "rat \<Rightarrow> int" where
  "round_half_even x =
     (let f = \<lfloor>x\<rfloor>; r = x - of_int f
      in if r < 1 / 2 then f else if 1 / 2 < r then f + 1
         else if even f then f else f + 1)"

text \<open>
  Modelled from the spec: the constructor \<^verbatim>\<open>Quantity(value, precision)\<close> of
  model/objects.pyx, which is not among the sources. Spec, sections 3 and 4.1: a quantity
  is an unsigned fixed-point number with \<open>precision\<close> decimal places, rounding is
  half-to-even, and a negative quantity is a failure. The 64-bit range of the backing
  integer and the bound on the precision are not modelled.
\<close>

definition Quantity_init :: "Decimal \<Rightarrow> nat \<Rightarrow> error + Quantity" where
  "Quantity_init v prec =
     (if v < 0 then Inl ValueError
      else Inr \<lparr>qty_value = of_int (round_half_even (v * 10 ^ prec)) / 10 ^ prec,
                qty_prec = prec\<rparr>)"

text \<open>
  Modelled from the spec: \<^verbatim>\<open>Money(value, currency)\<close> and the \<^verbatim>\<open>+\<close> of a \<^verbatim>\<open>Money\<close>
  (model/objects.pyx, not among the sources). Spec, section 3: money is an amount with a
  currency. The \<^verbatim>\<open>+\<close> is the one position.pyx uses: the sum of the two amounts, a plain
  \<^verbatim>\<open>Decimal\<close> with no currency. The source adds a \<^verbatim>\<open>Money\<close> to a \<^verbatim>\<open>Decimal\<close>
  (\<^verbatim>\<open>Decimal(0) + fill.commission\<close>, \<^verbatim>\<open>self.realized_pnl + realized_pnl\<close>), annotates the
  sum of two \<^verbatim>\<open>Money\<close> as \<^verbatim>\<open>pnl: Decimal\<close> and gives every sum its currency afresh with
  \<^verbatim>\<open>Money(pnl, currency)\<close>; nothing on that path compares currencies or raises.
\<close>

definition Money_init :: "Decimal \<Rightarrow> Currency \<Rightarrow> Money" where
  "Money_init v c = \<lparr>amount = v, currency = c\<rparr>"

definition Money_add :: "Money \<Rightarrow> Money \<Rightarrow> Decimal" where
  "Money_add a b = amount a + amount b"

text \<open>Division of \<^verbatim>\<open>Decimal\<close>s: a zero divisor raises.\<close>

definition Decimal_div :: "Decimal \<Rightarrow> Decimal \<Rightarrow> error + Decimal" where
  "Decimal_div a b =
     (if b = 0 then (if a = 0 then Inl InvalidOperation else Inl DivisionByZero)
      else Inr (a / b))"

section \<open>Instruments and fill events\<close>

text \<open>
  Modelled from the spec: \<^verbatim>\<open>Instrument\<close> (model/instruments/base.pyx, not among the
  sources), with the fields of section 3; \<^verbatim>\<open>get_cost_currency()\<close> is the base currency
  of an inverse instrument and the quote currency otherwise.
\<close>

record Instrument =
  instr_id :: InstrumentId
  instr_price_precision :: nat
  instr_size_precision :: nat
  instr_multiplier :: Decimal
  instr_is_inverse :: bool
  instr_quote_currency :: Currency
  instr_base_currency :: "Currency option"

definition get_base_currency :: "Instrument \<Rightarrow> Currency option" where
  "get_base_currency i = instr_base_currency i"

definition get_cost_currency :: "Instrument \<Rightarrow> Currency option" where
  "get_cost_currency i =
     (if instr_is_inverse i then instr_base_currency i else Some (instr_quote_currency i))"

text \<open>
  The fields of \<^verbatim>\<open>OrderFilled\<close> (model/events/order.pyx, not among the sources) that
  \<^verbatim>\<open>Position\<close> reads.
\<close>

record OrderFilled =
  fill_trader_id :: string
  fill_strategy_id :: string
  fill_instrument_id :: InstrumentId
  fill_position_id :: "string option"
  fill_account_id :: string
  fill_client_order_id :: string
  fill_venue_order_id :: string
  execution_id :: ExecutionId
  order_side :: OrderSide
  last_qty :: Quantity
  last_px :: Price
  commission :: Money
  fill_ts_event :: int64_t
  fill_ts_init :: int64_t

section \<open>Position (model/position.pyx)\<close>

text \<open>
  The fields of \<^verbatim>\<open>Position\<close>, under the names of the source (\<open>events\<close> is \<^verbatim>\<open>_events\<close>,
  \<open>pos_id\<close> is \<^verbatim>\<open>id\<close>, and so on). \<open>commissions\<close> is the dict \<^verbatim>\<open>_commissions\<close>.
\<close>

record Position =
  events :: "OrderFilled list"
  execution_ids :: "ExecutionId list"
  buy_qty :: Decimal
  sell_qty :: Decimal
  commissions :: "Currency \<rightharpoonup> Money"
  trader_id :: string
  strategy_id :: string
  instrument_id :: InstrumentId
  pos_id :: string
  account_id :: string
  from_order :: string
  entry :: OrderSide
  side :: PositionSide
  net_qty :: Decimal
  quantity :: Quantity
  peak_qty :: Quantity
  ts_init :: int64_t
  ts_opened :: int64_t
  ts_last :: int64_t
  ts_closed :: int64_t
  duration_ns :: int64_t
  avg_px_open :: Decimal
  avg_px_close :: "Decimal option"
  price_precision :: nat
  size_precision :: nat
  multiplier :: Decimal
  is_inverse :: bool
  quote_currency :: Currency
  base_currency :: "Currency option"
  cost_currency :: Currency
  realized_points :: Decimal
  realized_return :: Decimal
  realized_pnl :: Money

definition side_from_order_side_c :: "OrderSide \<Rightarrow> PositionSide" where
  "side_from_order_side_c s = (case s of BUY \<Rightarrow> LONG | SELL \<Rightarrow> SHORT)"

definition execution_ids_c :: "Position \<Rightarrow> ExecutionId list" where
  "execution_ids_c self = map execution_id (events self)"

definition calculate_avg_px :: "Decimal \<Rightarrow> Decimal \<Rightarrow> OrderFilled \<Rightarrow> error + Decimal" where
  "calculate_avg_px qty avg_px fill =
     (let start_cost = avg_px * qty;
          event_cost = price_value (last_px fill) * qty_value (last_qty fill);
          cum_qty = qty + qty_value (last_qty fill)
      in Decimal_div (start_cost + event_cost) cum_qty)"

definition calculate_avg_px_open_px :: "Position \<Rightarrow> OrderFilled \<Rightarrow> error + Decimal" where
  "calculate_avg_px_open_px self fill =
     calculate_avg_px \<bar>net_qty self\<bar> (avg_px_open self) fill"

text \<open>
  \<^verbatim>\<open>if not self.avg_px_close\<close> holds for \<^verbatim>\<open>None\<close> and for a zero value.
\<close>

definition calculate_avg_px_close_px :: "Position \<Rightarrow> OrderFilled \<Rightarrow> error + Decimal" where
  "calculate_avg_px_close_px self fill =
     (case avg_px_close self of
        None \<Rightarrow> Inr (price_value (last_px fill))
      | Some c \<Rightarrow>
          if c = 0 then Inr (price_value (last_px fill))
          else let close_qty = (if side self = LONG then sell_qty self else buy_qty self)
               in calculate_avg_px close_qty c fill)"

definition calculate_points :: "Position \<Rightarrow> Decimal \<Rightarrow> Decimal \<Rightarrow> Decimal" where
  "calculate_points self px_open px_close =
     (if side self = LONG then px_close - px_open
      else if side self = SHORT then px_open - px_close
      else 0)"

definition calculate_points_inverse :: "Position \<Rightarrow> Decimal \<Rightarrow> Decimal \<Rightarrow> error + Decimal" where
  "calculate_points_inverse self px_open px_close =
     (if side self = LONG then
        (case Decimal_div 1 px_open of
           Inl e \<Rightarrow> Inl e
         | Inr a \<Rightarrow> (case Decimal_div 1 px_close of Inl e \<Rightarrow> Inl e | Inr b \<Rightarrow> Inr (a - b)))
      else if side self = SHORT then
        (case Decimal_div 1 px_close of
           Inl e \<Rightarrow> Inl e
         | Inr a \<Rightarrow> (case Decimal_div 1 px_open of Inl e \<Rightarrow> Inl e | Inr b \<Rightarrow> Inr (a - b)))
      else Inr 0)"

definition calculate_return :: "Position \<Rightarrow> Decimal \<Rightarrow> Decimal \<Rightarrow> error + Decimal" where
  "calculate_return self px_open px_close =
     Decimal_div (calculate_points self px_open px_close) px_open"

definition calculate_pnl :: "Position \<Rightarrow> Decimal \<Rightarrow> Decimal \<Rightarrow> Decimal \<Rightarrow> error + Decimal" where
  "calculate_pnl self px_open px_close qty =
     (if is_inverse self then
        (case calculate_points_inverse self px_open px_close of
           Inl e \<Rightarrow> Inl e
         | Inr pts \<Rightarrow> Inr (qty * multiplier self * pts))
      else Inr (qty * multiplier self * calculate_points self px_open px_close))"

text \<open>
  The closing branch shared by \<^verbatim>\<open>_handle_buy_order_fill\<close> (on a short position) and
  \<^verbatim>\<open>_handle_sell_order_fill\<close> (on a long position): the three assignments and the
  realized PnL of the fill, in the order of the source, so that a raise leaves the
  assignments made before it.
\<close>

definition handle_closing_fill ::
  "Position \<Rightarrow> OrderFilled \<Rightarrow> Decimal \<Rightarrow> (error \<times> Position) + (Position \<times> Decimal)" where
  "handle_closing_fill self fill pnl0 =
     (case calculate_avg_px_close_px self fill of
        Inl e \<Rightarrow> Inl (e, self)
      | Inr c \<Rightarrow>
          (let self1 = self\<lparr>avg_px_close := Some c\<rparr>;
               self2 = self1\<lparr>realized_points := calculate_points self1 (avg_px_open self1) c\<rparr>
           in case calculate_return self2 (avg_px_open self2) c of
                Inl e \<Rightarrow> Inl (e, self2)
              | Inr r \<Rightarrow>
                  (let self3 = self2\<lparr>realized_return := r\<rparr>
                   in case calculate_pnl self3 (avg_px_open self3) (price_value (last_px fill))
                             (qty_value (last_qty fill)) of
                        Inl e \<Rightarrow> Inl (e, self3)
                      | Inr pnl \<Rightarrow> Inr (self3, pnl0 + pnl))))"

definition handle_buy_order_fill :: "Position \<Rightarrow> OrderFilled \<Rightarrow> (error \<times> Position) + Position" where
  "handle_buy_order_fill self fill =
     (let pnl0 = (if currency (commission fill) = cost_currency self
                  then - amount (commission fill) else 0);
          r = (if net_qty self > 0 then
                 (case calculate_avg_px_open_px self fill of
                    Inl e \<Rightarrow> Inl (e, self)
                  | Inr a \<Rightarrow> Inr (self\<lparr>avg_px_open := a\<rparr>, pnl0))
               else if net_qty self < 0 then handle_closing_fill self fill pnl0
               else Inr (self, pnl0))
      in case r of
           Inl e \<Rightarrow> Inl e
         | Inr (self', pnl) \<Rightarrow>
             Inr (self'\<lparr>realized_pnl :=
                          Money_init (amount (realized_pnl self') + pnl) (cost_currency self'),
                        buy_qty := buy_qty self' + qty_value (last_qty fill),
                        net_qty := net_qty self' + qty_value (last_qty fill)\<rparr>))"

definition handle_sell_order_fill :: "Position \<Rightarrow> OrderFilled \<Rightarrow> (error \<times> Position) + Position" where
  "handle_sell_order_fill self fill =
     (let pnl0 = (if currency (commission fill) = cost_currency self
                  then - amount (commission fill) else 0);
          r = (if net_qty self < 0 then
                 (case calculate_avg_px_open_px self fill of
                    Inl e \<Rightarrow> Inl (e, self)
                  | Inr a \<Rightarrow> Inr (self\<lparr>avg_px_open := a\<rparr>, pnl0))
               else if net_qty self > 0 then handle_closing_fill self fill pnl0
               else Inr (self, pnl0))
      in case r of
           Inl e \<Rightarrow> Inl e
         | Inr (self', pnl) \<Rightarrow>
             Inr (self'\<lparr>realized_pnl :=
                          Money_init (amount (realized_pnl self') + pnl) (cost_currency self'),
                        sell_qty := sell_qty self' + qty_value (last_qty fill),
                        net_qty := net_qty self' - qty_value (last_qty fill)\<rparr>))"

text \<open>
  \<^verbatim>\<open>Position.apply\<close>. \<^verbatim>\<open>Condition.not_in\<close> (core/correctness.pyx, not among the
  sources) raises \<^verbatim>\<open>KeyError\<close> when the execution ID is in the list, as the docstring of
  \<^verbatim>\<open>apply\<close> says; nothing has been assigned at that point. The cumulative commission
  is \<^verbatim>\<open>Decimal(0) + fill.commission\<close> for a new currency and the \<^verbatim>\<open>+\<close> of two \<^verbatim>\<open>Money\<close>
  otherwise.
\<close>

definition set_state :: "Position \<Rightarrow> OrderFilled \<Rightarrow> Position" where
  "set_state self fill =
     (if net_qty self > 0 then
        self\<lparr>entry := BUY, side := LONG, ts_closed := 0, duration_ns := 0\<rparr>
      else if net_qty self < 0 then
        self\<lparr>entry := SELL, side := SHORT, ts_closed := 0, duration_ns := 0\<rparr>
      else
        self\<lparr>side := FLAT, ts_closed := fill_ts_event fill,
              duration_ns := fill_ts_event fill - ts_opened self\<rparr>)"

definition Position_apply :: "Position \<Rightarrow> OrderFilled \<Rightarrow> (error \<times> Position) + Position" where
  "Position_apply self fill =
     (if execution_id fill \<in> set (execution_ids self) then Inl (KeyError, self)
      else
        let self1 = self\<lparr>events := events self @ [fill],
                         execution_ids := execution_ids self @ [execution_id fill]\<rparr>;
            ccy = currency (commission fill);
            cum_commission =
              Money_init (case commissions self1 ccy of
                            None \<Rightarrow> 0 + amount (commission fill)
                          | Some m \<Rightarrow> Money_add m (commission fill)) ccy;
            self2 = self1\<lparr>commissions := (commissions self1)(ccy \<mapsto> cum_commission)\<rparr>
        in case (case order_side fill of
                   BUY \<Rightarrow> handle_buy_order_fill self2 fill
                 | SELL \<Rightarrow> handle_sell_order_fill self2 fill) of
             Inl e \<Rightarrow> Inl e
           | Inr self3 \<Rightarrow>
               (case Quantity_init \<bar>net_qty self3\<bar> (size_precision self3) of
                  Inl e \<Rightarrow> Inl (e, self3)
                | Inr q \<Rightarrow>
                    (let self4 = self3\<lparr>quantity := q\<rparr>;
                         self5 = (if qty_value (quantity self4) > qty_value (peak_qty self4)
                                  then self4\<lparr>peak_qty := quantity self4\<rparr> else self4);
                         self6 = set_state self5 fill
                     in Inr (self6\<lparr>ts_last := fill_ts_event fill\<rparr>))))"

text \<open>
  \<^verbatim>\<open>Position.__init__\<close>: the two \<^verbatim>\<open>Condition\<close> checks raise \<^verbatim>\<open>ValueError\<close> (docstring
  of the class); an instrument with no cost currency cannot make the \<^verbatim>\<open>Money\<close> of
  \<^verbatim>\<open>realized_pnl\<close>. A raise inside the constructor leaves no object.
\<close>

definition Position_init :: "Instrument \<Rightarrow> OrderFilled \<Rightarrow> error + Position" where
  "Position_init instrument fill =
     (if instr_id instrument \<noteq> fill_instrument_id fill then Inl ValueError
      else case fill_position_id fill of
        None \<Rightarrow> Inl ValueError
      | Some pid \<Rightarrow>
         (case Quantity_init 0 (instr_size_precision instrument) of
            Inl e \<Rightarrow> Inl e
          | Inr zero \<Rightarrow>
             (case get_cost_currency instrument of
                None \<Rightarrow> Inl TypeError
              | Some cost \<Rightarrow>
                 (case Position_apply
                    \<lparr>events = [], execution_ids = [], buy_qty = 0, sell_qty = 0,
                     commissions = Map.empty,
                     trader_id = fill_trader_id fill,
                     strategy_id = fill_strategy_id fill,
                     instrument_id = fill_instrument_id fill,
                     pos_id = pid,
                     account_id = fill_account_id fill,
                     from_order = fill_client_order_id fill,
                     entry = order_side fill,
                     side = side_from_order_side_c (order_side fill),
                     net_qty = 0,
                     quantity = zero,
                     peak_qty = zero,
                     ts_init = fill_ts_init fill,
                     ts_opened = fill_ts_event fill,
                     ts_last = fill_ts_event fill,
                     ts_closed = 0,
                     duration_ns = 0,
                     avg_px_open = price_value (last_px fill),
                     avg_px_close = None,
                     price_precision = instr_price_precision instrument,
                     size_precision = instr_size_precision instrument,
                     multiplier = instr_multiplier instrument,
                     is_inverse = instr_is_inverse instrument,
                     quote_currency = instr_quote_currency instrument,
                     base_currency = get_base_currency instrument,
                     cost_currency = cost,
                     realized_points = 0,
                     realized_return = 0,
                     realized_pnl = Money_init 0 cost\<rparr> fill of
                    Inl (e, _) \<Rightarrow> Inl e
                  | Inr self \<Rightarrow> Inr self))))"



text \<open>The state a call leaves behind, raised or returned.\<close>

definition state_after :: "(error \<times> 'a) + 'a \<Rightarrow> 'a" where
  "state_after r = (case r of Inl (e, s) \<Rightarrow> s | Inr s \<Rightarrow> s)"

fun apply_fills :: "Position \<Rightarrow> OrderFilled list \<Rightarrow> Position" where
  "apply_fills self [] = self"
| "apply_fills self (f # fs) = apply_fills (state_after (Position_apply self f)) fs"


text \<open>
  A position opened by one fill to which a second fill is applied, and what the flip
  scenario observes of the result.
\<close>

definition open_then_apply :: "Instrument \<Rightarrow> OrderFilled \<Rightarrow> OrderFilled \<Rightarrow> error + Position" where
  "open_then_apply instrument f1 f2 =
     (case Position_init instrument f1 of
        Inl e \<Rightarrow> Inl e
      | Inr p \<Rightarrow> (case Position_apply p f2 of Inl (e, _) \<Rightarrow> Inl e | Inr p' \<Rightarrow> Inr p'))"

definition flip_observed ::
  "Position \<Rightarrow> Decimal \<times> PositionSide \<times> Decimal \<times> Decimal \<times> Decimal option" where
  "flip_observed p = (amount (realized_pnl p), side p, net_qty p, avg_px_open p, avg_px_close p)"


text \<open>The invariant behind the duplicate check of \<^verbatim>\<open>apply\<close>.\<close>

definition ids_consistent :: "Position \<Rightarrow> bool" where
  "ids_consistent p \<longleftrightarrow>
     execution_ids p = map execution_id (events p) \<and> distinct (execution_ids p)"

subsection \<open>Concrete instruments and fills\<close>

definition audusd :: "Decimal \<Rightarrow> Instrument" where
  "audusd m =
     \<lparr>instr_id = ''AUD/USD.SIM'', instr_price_precision = 2, instr_size_precision = 0,
      instr_multiplier = m, instr_is_inverse = False, instr_quote_currency = ''USD'',
      instr_base_currency = Some ''AUD''\<rparr>"

definition xbtusd :: Instrument where
  "xbtusd =
     \<lparr>instr_id = ''XBT/USD.BITMEX'', instr_price_precision = 1, instr_size_precision = 0,
      instr_multiplier = 1, instr_is_inverse = True, instr_quote_currency = ''USD'',
      instr_base_currency = Some ''BTC''\<rparr>"

definition a_fill ::
  "InstrumentId \<Rightarrow> ExecutionId \<Rightarrow> OrderSide \<Rightarrow> Decimal \<Rightarrow> Decimal \<Rightarrow> Money \<Rightarrow> int64_t
     \<Rightarrow> OrderFilled" where
  "a_fill i x s q px c ts =
     \<lparr>fill_trader_id = ''TRADER-001'', fill_strategy_id = ''S-001'',
      fill_instrument_id = i, fill_position_id = Some ''P-1'',
      fill_account_id = ''SIM-000'', fill_client_order_id = ''O-1'',
      fill_venue_order_id = ''V-1'', execution_id = x, order_side = s,
      last_qty = \<lparr>qty_value = q, qty_prec = 0\<rparr>,
      last_px = \<lparr>price_value = px, price_prec = 2\<rparr>,
      commission = c, fill_ts_event = ts, fill_ts_init = ts\<rparr>"

definition usd :: "Decimal \<Rightarrow> Money" where
  "usd v = \<lparr>amount = v, currency = ''USD''\<rparr>"

definition btc :: "Decimal \<Rightarrow> Money" where
  "btc v = \<lparr>amount = v, currency = ''BTC''\<rparr>"

text \<open>
  A position opened long by a buy of 5 at 10.00 at time 1, two sells for it, and an
  inverse position bought at 10.0 and then sold out at 20.0.
\<close>

definition long_position :: Position where
  "long_position =
     projr (Position_init (audusd 1) (a_fill ''AUD/USD.SIM'' ''E-1'' BUY 5 10 (usd 0) 1))"

definition sell_three :: OrderFilled where
  "sell_three = a_fill ''AUD/USD.SIM'' ''E-2'' SELL 3 12 (usd 2) 5"

definition sell_five :: OrderFilled where
  "sell_five = a_fill ''AUD/USD.SIM'' ''E-3'' SELL 5 12 (usd 2) 7"





section \<open>Bar builder and aggregators (second module of model/position.pyx)\<close>

datatype BarAggregation =
  TICK | TICK_IMBALANCE | TICK_RUNS | VOLUME | VOLUME_IMBALANCE | VOLUME_RUNS
  | VALUE | VALUE_IMBALANCE | VALUE_RUNS | SECOND | MINUTE | HOUR | DAY

text \<open>
  Modelled from the spec: \<^verbatim>\<open>PriceType\<close> (model/c_enums), \<^verbatim>\<open>BarSpecification\<close>, \<^verbatim>\<open>BarType\<close>
  and \<^verbatim>\<open>Bar\<close> (model/data/bar.pyx), none of them among the sources, with the values and
  fields of section 3. The prices of a bar are not optional, so a bar cannot be made of
  \<^verbatim>\<open>None\<close> prices.
\<close>

datatype PriceType = BID | ASK | MID | LAST

record BarSpecification =
  step :: int
  aggregation :: BarAggregation
  price_type :: PriceType

record BarType =
  bt_instrument_id :: InstrumentId
  spec :: BarSpecification

record Bar =
  bar_type :: BarType
  bar_open :: Price
  bar_high :: Price
  bar_low :: Price
  bar_close :: Price
  bar_volume :: Quantity
  bar_ts_event :: int64_t
  bar_ts_init :: int64_t

text \<open>
  \<^verbatim>\<open>BarBuilder\<close>: \<open>b_open\<close>, \<open>b_high\<close>, \<open>b_low\<close>, \<open>b_close\<close>, \<open>b_last_close\<close> are
  \<^verbatim>\<open>_open\<close>, \<^verbatim>\<open>_high\<close>, \<^verbatim>\<open>_low\<close>, \<^verbatim>\<open>_close\<close>, \<^verbatim>\<open>_last_close\<close> (\<^verbatim>\<open>None\<close> until set);
  \<open>b_ts_last\<close> is \<^verbatim>\<open>ts_last\<close>.
\<close>

record BarBuilder =
  b_bar_type :: BarType
  b_price_precision :: nat
  b_size_precision :: nat
  initialized :: bool
  b_ts_last :: int64_t
  count :: int
  partial_set :: bool
  b_last_close :: "Price option"
  b_open :: "Price option"
  b_high :: "Price option"
  b_low :: "Price option"
  b_close :: "Price option"
  volume :: Decimal

definition BarBuilder_init :: "Instrument \<Rightarrow> BarType \<Rightarrow> error + BarBuilder" where
  "BarBuilder_init instrument bt =
     (if instr_id instrument \<noteq> bt_instrument_id bt then Inl ValueError
      else Inr \<lparr>b_bar_type = bt,
                b_price_precision = instr_price_precision instrument,
                b_size_precision = instr_size_precision instrument,
                initialized = False, b_ts_last = 0, count = 0, partial_set = False,
                b_last_close = None, b_open = None, b_high = None, b_low = None,
                b_close = None, volume = 0\<rparr>)"

text \<open>
  \<^verbatim>\<open>BarBuilder.update\<close>. A comparison of the price with a \<^verbatim>\<open>None\<close> high or low raises;
  nothing has been assigned then.
\<close>

definition BarBuilder_update ::
  "BarBuilder \<Rightarrow> Price \<Rightarrow> Quantity \<Rightarrow> int64_t \<Rightarrow> error + BarBuilder" where
  "BarBuilder_update self price tick_size ts_event =
     (if sint ts_event < sint (b_ts_last self) then Inr self
      else
        case (case b_open self of
                None \<Rightarrow>
                  Inr (self\<lparr>b_open := Some price, b_high := Some price,
                            b_low := Some price, initialized := True\<rparr>)
              | Some _ \<Rightarrow>
                  (case b_high self of
                     None \<Rightarrow> Inl TypeError
                   | Some h \<Rightarrow>
                       if price_value price > price_value h
                       then Inr (self\<lparr>b_high := Some price\<rparr>)
                       else (case b_low self of
                               None \<Rightarrow> Inl TypeError
                             | Some l \<Rightarrow>
                                 if price_value price < price_value l
                                 then Inr (self\<lparr>b_low := Some price\<rparr>)
                                 else Inr self))) of
          Inl e \<Rightarrow> Inl e
        | Inr self1 \<Rightarrow>
            Inr (self1\<lparr>b_close := Some price,
                       volume := volume self1 + qty_value tick_size,
                       count := count self1 + 1,
                       b_ts_last := ts_event\<rparr>))"

definition BarBuilder_reset :: "BarBuilder \<Rightarrow> BarBuilder" where
  "BarBuilder_reset self =
     self\<lparr>b_open := b_close self, b_high := b_close self, b_low := b_close self,
          volume := 0, count := 0\<rparr>"

definition BarBuilder_build ::
  "BarBuilder \<Rightarrow> int64_t \<Rightarrow> (error \<times> BarBuilder) + (Bar \<times> BarBuilder)" where
  "BarBuilder_build self ts_event =
     (let self1 = (if b_open self = None
                   then self\<lparr>b_open := b_last_close self, b_high := b_last_close self,
                             b_low := b_last_close self, b_close := b_last_close self\<rparr>
                   else self)
      in case Quantity_init (volume self1) (b_size_precision self1) of
           Inl e \<Rightarrow> Inl (e, self1)
         | Inr v \<Rightarrow>
             (case (b_open self1, b_high self1, b_low self1, b_close self1) of
                (Some po, Some ph, Some pl, Some pc) \<Rightarrow>
                  Inr (\<lparr>bar_type = b_bar_type self1, bar_open = po, bar_high = ph,
                        bar_low = pl, bar_close = pc, bar_volume = v,
                        bar_ts_event = ts_event, bar_ts_init = ts_event\<rparr>,
                       BarBuilder_reset (self1\<lparr>b_last_close := b_close self1\<rparr>))
              | _ \<Rightarrow> Inl (TypeError, self1)))"

definition BarBuilder_build_now ::
  "BarBuilder \<Rightarrow> (error \<times> BarBuilder) + (Bar \<times> BarBuilder)" where
  "BarBuilder_build_now self = BarBuilder_build self (b_ts_last self)"

text \<open>
  The builders the class makes: the high and the low are set whenever the open is (all
  three are set together, by the first update or by \<^verbatim>\<open>reset\<close>).
\<close>

definition builder_wf :: "BarBuilder \<Rightarrow> bool" where
  "builder_wf b \<longleftrightarrow> b_open b = None \<or> (b_high b \<noteq> None \<and> b_low b \<noteq> None)"

text \<open>
  \<^verbatim>\<open>BarAggregator\<close>: \<open>agg_bar_type\<close> is \<^verbatim>\<open>bar_type\<close>, \<open>builder\<close> is \<^verbatim>\<open>_builder\<close>, and
  \<open>handled\<close> is the list of the bars passed to \<^verbatim>\<open>_handler\<close>, in the order of the calls.
  The subclasses extend the record as they extend the class.
\<close>

record BarAggregator =
  agg_bar_type :: BarType
  builder :: BarBuilder
  handled :: "Bar list"

definition BarAggregator_init :: "Instrument \<Rightarrow> BarType \<Rightarrow> error + BarAggregator" where
  "BarAggregator_init instrument bt =
     (if instr_id instrument \<noteq> bt_instrument_id bt then Inl ValueError
      else case BarBuilder_init instrument bt of
             Inl e \<Rightarrow> Inl e
           | Inr b \<Rightarrow> Inr \<lparr>agg_bar_type = bt, builder = b, handled = []\<rparr>)"

text \<open>
  \<open>update_builder\<close> is the call \<^verbatim>\<open>self._builder.update(price, size, ts_event)\<close> made by
  an aggregator; \<open>build_and_send\<close> and \<open>build_now_and_send\<close> are \<^verbatim>\<open>_build_and_send\<close> and
  \<^verbatim>\<open>_build_now_and_send\<close>.
\<close>

definition update_builder ::
  "'a BarAggregator_scheme \<Rightarrow> Price \<Rightarrow> Quantity \<Rightarrow> int64_t
     \<Rightarrow> (error \<times> 'a BarAggregator_scheme) + 'a BarAggregator_scheme" where
  "update_builder self price tick_size ts_event =
     (case BarBuilder_update (builder self) price tick_size ts_event of
        Inl e \<Rightarrow> Inl (e, self)
      | Inr b \<Rightarrow> Inr (self\<lparr>builder := b\<rparr>))"

definition build_and_send ::
  "'a BarAggregator_scheme \<Rightarrow> int64_t
     \<Rightarrow> (error \<times> 'a BarAggregator_scheme) + 'a BarAggregator_scheme" where
  "build_and_send self ts_event =
     (case BarBuilder_build (builder self) ts_event of
        Inl (e, b) \<Rightarrow> Inl (e, self\<lparr>builder := b\<rparr>)
      | Inr (bar, b) \<Rightarrow> Inr (self\<lparr>builder := b, handled := handled self @ [bar]\<rparr>))"

definition build_now_and_send ::
  "'a BarAggregator_scheme \<Rightarrow> (error \<times> 'a BarAggregator_scheme) + 'a BarAggregator_scheme" where
  "build_now_and_send self = build_and_send self (b_ts_last (builder self))"

definition TickBarAggregator_apply_update ::
  "BarAggregator \<Rightarrow> Price \<Rightarrow> Quantity \<Rightarrow> int64_t \<Rightarrow> (error \<times> BarAggregator) + BarAggregator" where
  "TickBarAggregator_apply_update self price tick_size ts_event =
     (case update_builder self price tick_size ts_event of
        Inl e \<Rightarrow> Inl e
      | Inr self1 \<Rightarrow>
          if count (builder self1) = step (spec (agg_bar_type self1))
          then build_now_and_send self1 else Inr self1)"

text \<open>
  The \<^verbatim>\<open>while\<close> loop of \<^verbatim>\<open>VolumeBarAggregator._apply_update\<close>, with \<open>prec\<close> for
  \<^verbatim>\<open>size.precision\<close>. \<open>None\<close> is a loop that never ends.
\<close>

partial_function (option) VolumeBarAggregator_loop ::
  "BarAggregator \<Rightarrow> Price \<Rightarrow> nat \<Rightarrow> int64_t \<Rightarrow> Decimal
     \<Rightarrow> ((error \<times> BarAggregator) + BarAggregator) option" where
  "VolumeBarAggregator_loop self price prec ts_event size_update =
     (if size_update > 0 then
        if volume (builder self) + size_update < of_int (step (spec (agg_bar_type self))) then
          (case Quantity_init size_update prec of
             Inl e \<Rightarrow> Some (Inl (e, self))
           | Inr q \<Rightarrow> Some (update_builder self price q ts_event))
        else
          (case Quantity_init
                  (of_int (step (spec (agg_bar_type self))) - volume (builder self)) prec of
             Inl e \<Rightarrow> Some (Inl (e, self))
           | Inr q \<Rightarrow>
               (case update_builder self price q ts_event of
                  Inl e \<Rightarrow> Some (Inl e)
                | Inr self1 \<Rightarrow>
                    (case build_now_and_send self1 of
                       Inl e \<Rightarrow> Some (Inl e)
                     | Inr self2 \<Rightarrow>
                         if size_update
                              - (of_int (step (spec (agg_bar_type self))) - volume (builder self))
                            < 0
                         then Some (Inl (AssertionError, self2))
                         else VolumeBarAggregator_loop self2 price prec ts_event
                                (size_update
                                 - (of_int (step (spec (agg_bar_type self)))
                                    - volume (builder self))))))
      else Some (Inr self))"

definition VolumeBarAggregator_apply_update ::
  "BarAggregator \<Rightarrow> Price \<Rightarrow> Quantity \<Rightarrow> int64_t
     \<Rightarrow> ((error \<times> BarAggregator) + BarAggregator) option" where
  "VolumeBarAggregator_apply_update self price tick_size ts_event =
     VolumeBarAggregator_loop self price (qty_prec tick_size) ts_event (qty_value tick_size)"

text \<open>
  Modelled from the spec: the test clock's timer (common/timer.pyx and common/clock.pyx,
  not among the sources). Spec, sections 4.2 and 4.6: a timer is a recurring schedule,
  its next event is at \<open>next_time_ns\<close>, and the schedule then moves on by the interval.
  \<open>timer\<close> is the timer the clock holds under the name of the bar type, \<^verbatim>\<open>None\<close> once
  cancelled.
\<close>

record TimeEvent =
  event_ts_event :: int64_t

record TestTimer =
  next_time_ns :: int64_t
  timer_interval_ns :: int64_t

record Clock =
  is_test_clock :: bool
  timer :: "TestTimer option"

definition pop_next_event :: "TestTimer \<Rightarrow> TimeEvent \<times> TestTimer" where
  "pop_next_event t =
     (\<lparr>event_ts_event = next_time_ns t\<rparr>,
      t\<lparr>next_time_ns := next_time_ns t + timer_interval_ns t\<rparr>)"

record TimeBarAggregator = BarAggregator +
  clock :: Clock
  interval_ns :: int64_t
  next_close_ns :: int64_t
  build_on_next_tick :: bool
  stored_close_ns :: int64_t

definition build_event ::
  "TimeBarAggregator \<Rightarrow> TimeEvent \<Rightarrow> (error \<times> TimeBarAggregator) + TimeBarAggregator" where
  "build_event self event =
     (if \<not> initialized (builder self)
      then Inr (self\<lparr>build_on_next_tick := True, stored_close_ns := next_close_ns self\<rparr>)
      else build_and_send self (event_ts_event event))"

definition build_bar ::
  "TimeBarAggregator \<Rightarrow> int64_t \<Rightarrow> (error \<times> TimeBarAggregator) + TimeBarAggregator" where
  "build_bar self ts_event =
     (case timer (clock self) of
        None \<Rightarrow> Inl (AttributeError, self)
      | Some t \<Rightarrow>
          (case pop_next_event t of
             (event, t') \<Rightarrow>
               (case build_event (self\<lparr>clock := (clock self)\<lparr>timer := Some t'\<rparr>\<rparr>) event of
                  Inl e \<Rightarrow> Inl e
                | Inr self1 \<Rightarrow> Inr (self1\<lparr>next_close_ns := next_time_ns t'\<rparr>))))"

definition TimeBarAggregator_apply_update ::
  "TimeBarAggregator \<Rightarrow> Price \<Rightarrow> Quantity \<Rightarrow> int64_t
     \<Rightarrow> (error \<times> TimeBarAggregator) + TimeBarAggregator" where
  "TimeBarAggregator_apply_update self price tick_size ts_event =
     (if is_test_clock (clock self) \<and> sint (next_close_ns self) < sint ts_event then
        (case build_bar self (next_close_ns self) of
           Inl e \<Rightarrow> Inl e
         | Inr self1 \<Rightarrow> update_builder self1 price tick_size ts_event)
      else if is_test_clock (clock self) \<and> next_close_ns self = ts_event then
        (case update_builder self price tick_size ts_event of
           Inl e \<Rightarrow> Inl e
         | Inr self1 \<Rightarrow> build_bar self1 (next_close_ns self1))
      else
        (case update_builder self price tick_size ts_event of
           Inl e \<Rightarrow> Inl e
         | Inr self1 \<Rightarrow>
             if build_on_next_tick self1 then
               (case build_and_send self1 (stored_close_ns self1) of
                  Inl e \<Rightarrow> Inl e
                | Inr self2 \<Rightarrow> Inr (self2\<lparr>build_on_next_tick := False, stored_close_ns := 0\<rparr>))
             else Inr self1))"


section \<open>Simulated level 1 order book (model/orderbook/simulated.pyx)\<close>

text \<open>
  \<^verbatim>\<open>_update_bid\<close> and \<^verbatim>\<open>_update_ask\<close> take their price and size as C \<^verbatim>\<open>double\<close>s, and
  the book only stores and compares them. A \<^verbatim>\<open>double\<close> is modelled by the rational
  number it denotes, with \<open>2 ^ 1024\<close> and \<open>- 2 ^ 1024\<close> standing for the two infinities:
  every finite binary64 number lies strictly between them, so \<open>\<le>\<close> and \<open>=\<close> on these
  rationals are the comparisons of the doubles. NaN does not arise from a \<^verbatim>\<open>Price\<close> or a
  \<^verbatim>\<open>Quantity\<close>, and a negative zero compares equal to zero.
\<close>

type_synonym double = rat

text \<open>\<open>pow2 e\<close> is \<open>2\<close> to the integer power \<open>e\<close>.\<close>

definition pow2 :: "int \<Rightarrow> rat" where
  "pow2 e = (if 0 \<le> e then 2 ^ nat e else 1 / 2 ^ nat (- e))"

text \<open>
  For a positive \<open>x\<close>, the integer \<open>e\<close> with \<open>2 ^ e \<le> x < 2 ^ (e + 1)\<close>, from the bit
  lengths of numerator and denominator.
\<close>

definition ilog2 :: "rat \<Rightarrow> int" where
  "ilog2 x =
     (let (a, b) = quotient_of x; e = bitlen a - bitlen b
      in if x < pow2 e then e - 1 else e)"

text \<open>
  Rounding to binary64, to nearest with ties to even: 53 significant bits, the least
  exponent \<open>- 1022\<close> (below it the spacing stays \<open>2 ^ - 1074\<close>, the subnormal numbers),
  and overflow to infinity from \<open>2 ^ 1024 - 2 ^ 970\<close> on, where the rounded number
  reaches \<open>2 ^ 1024\<close>.
\<close>

definition round_to_double :: "rat \<Rightarrow> double" where
  "round_to_double x =
     (if x = 0 then 0
      else let m = \<bar>x\<bar>; e = max (ilog2 m) (- 1022); q = pow2 (e - 52);
               r = of_int (round_half_even (m / q)) * q;
               r' = (if 1024 \<le> ilog2 r then pow2 1024 else r)
           in if x < 0 then - r' else r')"

text \<open>
  Modelled from the spec: the conversion of a \<^verbatim>\<open>Price\<close> or a \<^verbatim>\<open>Quantity\<close> to the C
  \<^verbatim>\<open>double\<close> of the parameter it is passed for (\<^verbatim>\<open>__float__\<close> in model/objects.pyx, not
  among the sources). Spec, section 3: a price or quantity is the decimal number
  \<open>value / 10 ^ precision\<close>; its \<^verbatim>\<open>double\<close> is the binary64 number nearest to it, as
  Python's \<^verbatim>\<open>float\<close> of a \<^verbatim>\<open>Decimal\<close> gives. Two prices that differ can so have one
  \<^verbatim>\<open>double\<close>.
\<close>

definition Price_as_double :: "Price \<Rightarrow> double" where
  "Price_as_double p = round_to_double (price_value p)"

definition Quantity_as_double :: "Quantity \<Rightarrow> double" where
  "Quantity_as_double q = round_to_double (qty_value q)"

text \<open>
  Modelled from the spec: \<^verbatim>\<open>AggressorSide\<close> (model/c_enums, not among the sources) and the
  fields of the ticks that the book reads; a trade whose aggressor is neither \<^verbatim>\<open>BUY\<close> nor
  \<^verbatim>\<open>SELL\<close> takes neither branch of \<^verbatim>\<open>_update_trade_tick\<close>.
\<close>

datatype AggressorSide = AggressorSide_UNKNOWN | AggressorSide_BUY | AggressorSide_SELL

record QuoteTick =
  bid :: Price
  ask :: Price
  bid_size :: Quantity
  ask_size :: Quantity

record TradeTick =
  trade_price :: Price
  trade_size :: Quantity
  aggressor_side :: AggressorSide

datatype Tick = Quote QuoteTick | Trade TradeTick

text \<open>
  Modelled from the spec: the book's order and level objects (model/orderbook/book.pyx,
  data.pyx and level.pyx, not among the sources); section 4.5: the level 1 book stores
  exactly one bid level and one ask level. \<open>top_bid\<close>, \<open>top_ask\<close>, \<open>top_bid_level\<close>,
  \<open>top_ask_level\<close> are the four fields that \<^verbatim>\<open>SimulatedL1OrderBook\<close> adds.
\<close>

record BookOrder =
  order_price :: double
  order_size :: double
  book_side :: OrderSide

record Level =
  level_price :: double

record SimulatedL1OrderBook =
  top_bid :: "BookOrder option"
  top_ask :: "BookOrder option"
  top_bid_level :: "Level option"
  top_ask_level :: "Level option"

definition SimulatedL1OrderBook_init :: SimulatedL1OrderBook where
  "SimulatedL1OrderBook_init =
     \<lparr>top_bid = None, top_ask = None, top_bid_level = None, top_ask_level = None\<rparr>"

definition update_bid ::
  "SimulatedL1OrderBook \<Rightarrow> double \<Rightarrow> double
     \<Rightarrow> (error \<times> SimulatedL1OrderBook) + SimulatedL1OrderBook" where
  "update_bid self price sz =
     (case top_bid self of
        None \<Rightarrow>
          Inr (self\<lparr>top_bid := Some \<lparr>order_price = price, order_size = sz, book_side = BUY\<rparr>,
                    top_bid_level := Some \<lparr>level_price = price\<rparr>\<rparr>)
      | Some b \<Rightarrow>
          (case top_bid_level self of
             None \<Rightarrow> Inl (AttributeError, self)
           | Some lv \<Rightarrow>
               Inr (self\<lparr>top_bid_level := Some (lv\<lparr>level_price := price\<rparr>),
                         top_bid := Some (b\<lparr>order_price := price, order_size := sz\<rparr>)\<rparr>)))"

definition update_ask ::
  "SimulatedL1OrderBook \<Rightarrow> double \<Rightarrow> double
     \<Rightarrow> (error \<times> SimulatedL1OrderBook) + SimulatedL1OrderBook" where
  "update_ask self price sz =
     (case top_ask self of
        None \<Rightarrow>
          Inr (self\<lparr>top_ask := Some \<lparr>order_price = price, order_size = sz, book_side = SELL\<rparr>,
                    top_ask_level := Some \<lparr>level_price = price\<rparr>\<rparr>)
      | Some a \<Rightarrow>
          (case top_ask_level self of
             None \<Rightarrow> Inl (AttributeError, self)
           | Some lv \<Rightarrow>
               Inr (self\<lparr>top_ask_level := Some (lv\<lparr>level_price := price\<rparr>),
                         top_ask := Some (a\<lparr>order_price := price, order_size := sz\<rparr>)\<rparr>)))"

definition update_quote_tick ::
  "SimulatedL1OrderBook \<Rightarrow> QuoteTick \<Rightarrow> (error \<times> SimulatedL1OrderBook) + SimulatedL1OrderBook" where
  "update_quote_tick self tick =
     (case update_bid self (Price_as_double (bid tick)) (Quantity_as_double (bid_size tick)) of
        Inl e \<Rightarrow> Inl e
      | Inr self1 \<Rightarrow>
          update_ask self1 (Price_as_double (ask tick)) (Quantity_as_double (ask_size tick)))"

text \<open>
  \<^verbatim>\<open>_update_trade_tick\<close>. After \<^verbatim>\<open>_update_bid\<close> the bid is set, so \<^verbatim>\<open>self._top_bid.price\<close>
  reads it; the order's price is assigned before the level's.
\<close>

definition update_trade_tick ::
  "SimulatedL1OrderBook \<Rightarrow> TradeTick \<Rightarrow> (error \<times> SimulatedL1OrderBook) + SimulatedL1OrderBook" where
  "update_trade_tick self tick =
     (case aggressor_side tick of
        AggressorSide_SELL \<Rightarrow>
          (case update_bid self (Price_as_double (trade_price tick))
                  (Quantity_as_double (trade_size tick)) of
             Inl e \<Rightarrow> Inl e
           | Inr self1 \<Rightarrow>
               (case top_ask self1 of
                  None \<Rightarrow> Inr self1
                | Some a \<Rightarrow>
                    (case top_bid self1 of
                       None \<Rightarrow> Inl (AttributeError, self1)
                     | Some b \<Rightarrow>
                         if order_price b \<ge> order_price a then
                           (let self2 = self1\<lparr>top_ask := Some (a\<lparr>order_price := order_price b\<rparr>)\<rparr>
                            in case top_ask_level self2 of
                                 None \<Rightarrow> Inl (AttributeError, self2)
                               | Some lv \<Rightarrow>
                                   Inr (self2\<lparr>top_ask_level :=
                                                Some (lv\<lparr>level_price := order_price b\<rparr>)\<rparr>))
                         else Inr self1)))
      | AggressorSide_BUY \<Rightarrow>
          (case update_ask self (Price_as_double (trade_price tick))
                  (Quantity_as_double (trade_size tick)) of
             Inl e \<Rightarrow> Inl e
           | Inr self1 \<Rightarrow>
               (case top_bid self1 of
                  None \<Rightarrow> Inr self1
                | Some b \<Rightarrow>
                    (case top_ask self1 of
                       None \<Rightarrow> Inl (AttributeError, self1)
                     | Some a \<Rightarrow>
                         if order_price a \<le> order_price b then
                           (let self2 = self1\<lparr>top_bid := Some (b\<lparr>order_price := order_price a\<rparr>)\<rparr>
                            in case top_bid_level self2 of
                                 None \<Rightarrow> Inl (AttributeError, self2)
                               | Some lv \<Rightarrow>
                                   Inr (self2\<lparr>top_bid_level :=
                                                Some (lv\<lparr>level_price := order_price a\<rparr>)\<rparr>))
                         else Inr self1)))
      | AggressorSide_UNKNOWN \<Rightarrow> Inr self)"

definition update_tick ::
  "SimulatedL1OrderBook \<Rightarrow> Tick \<Rightarrow> (error \<times> SimulatedL1OrderBook) + SimulatedL1OrderBook" where
  "update_tick self tick =
     (case tick of Quote q \<Rightarrow> update_quote_tick self q | Trade t \<Rightarrow> update_trade_tick self t)"

text \<open>What a reader of the book sees of its two sides.\<close>

definition bid_price :: "SimulatedL1OrderBook \<Rightarrow> double option" where
  "bid_price self = map_option order_price (top_bid self)"

definition ask_price :: "SimulatedL1OrderBook \<Rightarrow> double option" where
  "ask_price self = map_option order_price (top_ask self)"

definition bid_qty :: "SimulatedL1OrderBook \<Rightarrow> double option" where
  "bid_qty self = map_option order_size (top_bid self)"

definition ask_qty :: "SimulatedL1OrderBook \<Rightarrow> double option" where
  "ask_qty self = map_option order_size (top_ask self)"

definition is_crossed :: "SimulatedL1OrderBook \<Rightarrow> bool" where
  "is_crossed self =
     (case (bid_price self, ask_price self) of (Some b, Some a) \<Rightarrow> b \<ge> a | _ \<Rightarrow> False)"

text \<open>
  The books the class makes: a side has its order and its level together, since
  \<^verbatim>\<open>_update_bid\<close> and \<^verbatim>\<open>_update_ask\<close> set both.
\<close>

definition book_consistent :: "SimulatedL1OrderBook \<Rightarrow> bool" where
  "book_consistent self \<longleftrightarrow>
     (top_bid self = None \<longleftrightarrow> top_bid_level self = None) \<and>
     (top_ask self = None \<longleftrightarrow> top_ask_level self = None)"

section \<open>Stop-limit order (model/orders/stop_limit.pyx)\<close>

text \<open>
  The fields of \<^verbatim>\<open>StopLimitOrder\<close> that its own methods assign (the others are those of
  \<^verbatim>\<open>PassiveOrder\<close>, whose source is not given), and the fields of \<^verbatim>\<open>OrderUpdated\<close> that
  \<^verbatim>\<open>_updated\<close> reads. \<open>order_quantity\<close> is \<^verbatim>\<open>quantity\<close>, \<open>limit_price\<close> is \<^verbatim>\<open>price\<close>.
\<close>

record OrderUpdated =
  upd_venue_order_id :: "string option"
  upd_quantity :: Quantity
  upd_price :: Price

record OrderTriggered =
  trg_ts_event :: int64_t

record StopLimitOrder =
  venue_order_id :: "string option"
  order_quantity :: Quantity
  limit_price :: Price
  trigger :: Price
  is_triggered :: bool
  is_post_only :: bool
  display_qty :: "Quantity option"

definition StopLimitOrder_init ::
  "Quantity \<Rightarrow> Price \<Rightarrow> Price \<Rightarrow> bool \<Rightarrow> Quantity option \<Rightarrow> error + StopLimitOrder" where
  "StopLimitOrder_init qty px trg post_only disp =
     (if \<not> (case disp of None \<Rightarrow> True
              | Some d \<Rightarrow> 0 \<le> qty_value d \<and> qty_value d \<le> qty_value qty)
      then Inl ValueError
      else Inr \<lparr>venue_order_id = None, order_quantity = qty, limit_price = px,
                trigger = trg, is_triggered = False, is_post_only = post_only,
                display_qty = disp\<rparr>)"

definition StopLimitOrder_updated :: "StopLimitOrder \<Rightarrow> OrderUpdated \<Rightarrow> StopLimitOrder" where
  "StopLimitOrder_updated self event =
     (let self1 = self\<lparr>venue_order_id := upd_venue_order_id event\<rparr>;
          self2 = self1\<lparr>order_quantity := upd_quantity event\<rparr>
      in if is_triggered self2 then self2\<lparr>limit_price := upd_price event\<rparr>
         else self2\<lparr>trigger := upd_price event\<rparr>)"

definition StopLimitOrder_triggered :: "StopLimitOrder \<Rightarrow> OrderTriggered \<Rightarrow> StopLimitOrder" where
  "StopLimitOrder_triggered self event = self\<lparr>is_triggered := True\<rparr>"


text \<open>
  The handlers that \<^verbatim>\<open>StopLimitOrder\<close> overrides, run on a sequence of events
  (\<^verbatim>\<open>Order.apply\<close>, which calls them after its state-machine check, is not among the
  sources).
\<close>

datatype StopLimitEvent = Updated OrderUpdated | Triggered OrderTriggered

fun run_handlers :: "StopLimitOrder \<Rightarrow> StopLimitEvent list \<Rightarrow> StopLimitOrder" where
  "run_handlers self [] = self"
| "run_handlers self (Updated e # es) = run_handlers (StopLimitOrder_updated self e) es"
| "run_handlers self (Triggered e # es) = run_handlers (StopLimitOrder_triggered self e) es"

section \<open>Concrete aggregators, books and orders\<close>

definition px :: "Decimal \<Rightarrow> Price" where
  "px v = \<lparr>price_value = v, price_prec = 2\<rparr>"

definition sz :: "Decimal \<Rightarrow> Quantity" where
  "sz v = \<lparr>qty_value = v, qty_prec = 0\<rparr>"

definition volume_bar_type :: BarType where
  "volume_bar_type =
     \<lparr>bt_instrument_id = ''AUD/USD.SIM'',
      spec = \<lparr>step = 100, aggregation = VOLUME, price_type = LAST\<rparr>\<rparr>"

definition volume_aggregator :: BarAggregator where
  "volume_aggregator = projr (BarAggregator_init (audusd 1) volume_bar_type)"

text \<open>The volume aggregator after an update of size 60 at price 1.00 and time 1.\<close>

definition volume_aggregator_60 :: BarAggregator where
  "volume_aggregator_60 =
     volume_aggregator\<lparr>builder := (builder volume_aggregator)
       \<lparr>initialized := True, b_ts_last := 1, count := 1, b_open := Some (px 1),
        b_high := Some (px 1), b_low := Some (px 1), b_close := Some (px 1), volume := 60\<rparr>\<rparr>"

definition apply_two_updates ::
  "BarAggregator \<Rightarrow> Price \<Rightarrow> Quantity \<Rightarrow> int64_t \<Rightarrow> Price \<Rightarrow> Quantity \<Rightarrow> int64_t
     \<Rightarrow> ((error \<times> BarAggregator) + BarAggregator) option" where
  "apply_two_updates self p1 s1 t1 p2 s2 t2 =
     (case VolumeBarAggregator_apply_update self p1 s1 t1 of
        Some (Inr self1) \<Rightarrow> VolumeBarAggregator_apply_update self1 p2 s2 t2
      | r \<Rightarrow> r)"

text \<open>
  What the volume scenario observes: the volumes of the bars handed to the handler, the
  volume the builder holds and its last price.
\<close>

definition volume_observed ::
  "BarAggregator \<Rightarrow> Decimal list \<times> Decimal \<times> Decimal option" where
  "volume_observed self =
     (map (\<lambda>b. qty_value (bar_volume b)) (handled self), volume (builder self),
      map_option price_value (b_close (builder self)))"

text \<open>
  A one-minute aggregator on a test clock, as constructed at time 0 (first close at 60
  seconds), and the same after a tick of size 10 at price 1.00 at 30 seconds.
\<close>

definition minute_bar_type :: BarType where
  "minute_bar_type =
     \<lparr>bt_instrument_id = ''AUD/USD.SIM'',
      spec = \<lparr>step = 1, aggregation = MINUTE, price_type = LAST\<rparr>\<rparr>"

definition minute_aggregator :: TimeBarAggregator where
  "minute_aggregator =
     \<lparr>agg_bar_type = minute_bar_type,
      builder = projr (BarBuilder_init (audusd 1) minute_bar_type),
      handled = [],
      clock = \<lparr>is_test_clock = True,
               timer = Some \<lparr>next_time_ns = 60000000000,
                             timer_interval_ns = 60000000000\<rparr>\<rparr>,
      interval_ns = 60000000000,
      next_close_ns = 60000000000,
      build_on_next_tick = False,
      stored_close_ns = 0\<rparr>"

definition minute_aggregator_ticked :: TimeBarAggregator where
  "minute_aggregator_ticked =
     state_after (TimeBarAggregator_apply_update minute_aggregator (px 1) (sz 10) 30000000000)"

definition apply_two_ticks ::
  "TimeBarAggregator \<Rightarrow> Price \<Rightarrow> Quantity \<Rightarrow> int64_t \<Rightarrow> Price \<Rightarrow> Quantity \<Rightarrow> int64_t
     \<Rightarrow> (error \<times> TimeBarAggregator) + TimeBarAggregator" where
  "apply_two_ticks self p1 s1 t1 p2 s2 t2 =
     (case TimeBarAggregator_apply_update self p1 s1 t1 of
        Inl e \<Rightarrow> Inl e
      | Inr self1 \<Rightarrow> TimeBarAggregator_apply_update self1 p2 s2 t2)"

text \<open>
  What the time-bar scenarios observe: time and volume of the bars handed to the handler,
  the \<^verbatim>\<open>_build_on_next_tick\<close> flag, \<^verbatim>\<open>_stored_close_ns\<close>, \<^verbatim>\<open>next_close_ns\<close> and the
  volume the builder holds.
\<close>

definition time_observed ::
  "TimeBarAggregator \<Rightarrow> (int64_t \<times> Decimal) list \<times> bool \<times> int64_t \<times> int64_t \<times> Decimal" where
  "time_observed self =
     (map (\<lambda>b. (bar_ts_event b, qty_value (bar_volume b))) (handled self),
      build_on_next_tick self, stored_close_ns self, next_close_ns self,
      volume (builder self))"

definition quote_then_trade ::
  "SimulatedL1OrderBook \<Rightarrow> QuoteTick \<Rightarrow> TradeTick
     \<Rightarrow> (error \<times> SimulatedL1OrderBook) + SimulatedL1OrderBook" where
  "quote_then_trade self q t =
     (case update_tick self (Quote q) of
        Inl e \<Rightarrow> Inl e
      | Inr self1 \<Rightarrow> update_tick self1 (Trade t))"

definition book_observed :: "SimulatedL1OrderBook \<Rightarrow> double option \<times> double option \<times> bool" where
  "book_observed self = (bid_price self, ask_price self, is_crossed self)"

definition quote_100_101 :: QuoteTick where
  "quote_100_101 =
     \<lparr>bid = px 1, ask = px (101 / 100), bid_size = sz 1, ask_size = sz 1\<rparr>"

definition trade_at :: "AggressorSide \<Rightarrow> Decimal \<Rightarrow> TradeTick" where
  "trade_at a p = \<lparr>trade_price = px p, trade_size = sz 1, aggressor_side = a\<rparr>"

definition quoted_book :: SimulatedL1OrderBook where
  "quoted_book = state_after (update_tick SimulatedL1OrderBook_init (Quote quote_100_101))"

definition stop_limit_order :: StopLimitOrder where
  "stop_limit_order = projr (StopLimitOrder_init (sz 10) (px 100) (px 99) False None)"

definition order_updated :: "Decimal \<Rightarrow> OrderUpdated" where
  "order_updated p =
     \<lparr>upd_venue_order_id = Some ''V-1'', upd_quantity = sz 10, upd_price = px p\<rparr>"

section \<open>Properties of the position\<close>

lemmas position_defs =
  Position_init_def Position_apply_def handle_buy_order_fill_def handle_sell_order_fill_def
  handle_closing_fill_def calculate_avg_px_close_px_def calculate_avg_px_open_px_def
  calculate_avg_px_def calculate_points_def calculate_return_def calculate_pnl_def
  calculate_points_inverse_def Decimal_div_def Money_init_def Money_add_def set_state_def
  get_cost_currency_def get_base_currency_def side_from_order_side_c_def

lemmas example_defs = audusd_def xbtusd_def a_fill_def usd_def btc_def

lemma round_half_even_of_int: "round_half_even (of_int n) = n"
  by (simp add: round_half_even_def)

lemma Quantity_init_of_int:
  assumes "0 \<le> n"
  shows "Quantity_init (of_int n) p = Inr \<lparr>qty_value = of_int n, qty_prec = p\<rparr>"
proof -
  have "(of_int n :: rat) * 10 ^ p = of_int (n * 10 ^ p)" by simp
  then have "round_half_even (of_int n * 10 ^ p) = n * 10 ^ p"
    using round_half_even_of_int by presburger
  with assms show ?thesis by (simp add: Quantity_init_def)
qed

lemma Quantity_init_numeral [simp]:
  "Quantity_init 0 p = Inr \<lparr>qty_value = 0, qty_prec = p\<rparr>"
  "Quantity_init (numeral k) p = Inr \<lparr>qty_value = numeral k, qty_prec = p\<rparr>"
  using Quantity_init_of_int [of 0 p] Quantity_init_of_int [of "numeral k" p] by simp_all

subsection \<open>The flip scenario\<close>

text \<open>
  Claim C1, as the specification states it, fails: on a position opened long by a buy of
  5 at 10.00 (multiplier 1, no commission), a sell of 8 at 12.00 realizes the PnL of the
  whole fill, 8 * (12 - 10) = 16 and not 5 * (12 - 10) = 10, and the average open price
  stays 10.00 and does not become 12.00. Side, net quantity and average close price are
  as claimed.
\<close>

theorem position_flip_counterexample:
  "map_sum id flip_observed
     (open_then_apply (audusd 1)
        (a_fill ''AUD/USD.SIM'' ''E-1'' BUY 5 10 (usd 0) 1)
        (a_fill ''AUD/USD.SIM'' ''E-2'' SELL 8 12 (usd 0) 2))
     = Inr (16, SHORT, - 3, 10, Some 12)
   \<and> map_sum id flip_observed
     (open_then_apply (audusd 1)
        (a_fill ''AUD/USD.SIM'' ''E-1'' BUY 5 10 (usd 0) 1)
        (a_fill ''AUD/USD.SIM'' ''E-2'' SELL 8 12 (usd 0) 2))
     \<noteq> Inr (5 * (12 - 10) * instr_multiplier (audusd 1), SHORT, - 3, 12, Some 12)"
  by (simp add: open_then_apply_def flip_observed_def example_defs position_defs Let_def)

text \<open>
  Claim C1, amended: for an instrument that is not inverse, a position opened long by a
  buy fill of quantity 5 at price 10.00, to which a sell fill of quantity 8 at price 12.00
  is applied (neither fill with a commission in the cost currency), has realized PnL
  8 * (12 - 10) * multiplier, side SHORT, net quantity -3, average open price 10.00
  (unchanged) and average close price 12.00.
\<close>

theorem position_flip_realizes_whole_fill:
  assumes "\<not> instr_is_inverse instrument"
    and "instr_id instrument = fill_instrument_id f1"
    and "fill_position_id f1 = Some pid"
    and "order_side f1 = BUY" "qty_value (last_qty f1) = 5" "price_value (last_px f1) = 10"
    and "order_side f2 = SELL" "qty_value (last_qty f2) = 8" "price_value (last_px f2) = 12"
    and "execution_id f2 \<noteq> execution_id f1"
    and "currency (commission f1) \<noteq> instr_quote_currency instrument
         \<or> amount (commission f1) = 0"
    and "currency (commission f2) \<noteq> instr_quote_currency instrument
         \<or> amount (commission f2) = 0"
  shows "map_sum id flip_observed (open_then_apply instrument f1 f2)
         = Inr (8 * (12 - 10) * instr_multiplier instrument, SHORT, - 3, 10, Some 12)"
  using assms
  by (auto simp add: open_then_apply_def flip_observed_def Position_init_def
      Position_apply_def handle_buy_order_fill_def handle_sell_order_fill_def
      handle_closing_fill_def calculate_avg_px_close_px_def calculate_avg_px_open_px_def
      calculate_avg_px_def calculate_points_def calculate_return_def calculate_pnl_def
      Decimal_div_def Money_init_def Money_add_def set_state_def
      get_cost_currency_def get_base_currency_def side_from_order_side_c_def Let_def)

theorem position_flip_realizes_whole_fill_witness:
  "map_sum id flip_observed
     (open_then_apply (audusd 100)
        (a_fill ''AUD/USD.SIM'' ''E-1'' BUY 5 10 \<lparr>amount = 2, currency = ''AUD''\<rparr> 1)
        (a_fill ''AUD/USD.SIM'' ''E-2'' SELL 8 12 (usd 0) 2))
   = Inr (1600, SHORT, - 3, 10, Some 12)"
  using position_flip_realizes_whole_fill
    [of "audusd 100" "a_fill ''AUD/USD.SIM'' ''E-1'' BUY 5 10 \<lparr>amount = 2, currency = ''AUD''\<rparr> 1"
        "''P-1''" "a_fill ''AUD/USD.SIM'' ''E-2'' SELL 8 12 (usd 0) 2"]
  by (simp add: example_defs)

subsection \<open>Duplicate fills\<close>

lemma handle_closing_fill_events:
  "handle_closing_fill s f pnl0 = Inl (e, s') \<Longrightarrow>
     events s' = events s \<and> execution_ids s' = execution_ids s"
  "handle_closing_fill s f pnl0 = Inr (s', pnl) \<Longrightarrow>
     events s' = events s \<and> execution_ids s' = execution_ids s"
  unfolding handle_closing_fill_def Let_def
  by (auto split: sum.splits)

lemma handle_buy_order_fill_events:
  "handle_buy_order_fill s f = Inl (e, s') \<Longrightarrow>
     events s' = events s \<and> execution_ids s' = execution_ids s"
  "handle_buy_order_fill s f = Inr s' \<Longrightarrow>
     events s' = events s \<and> execution_ids s' = execution_ids s"
  unfolding handle_buy_order_fill_def Let_def
  by (auto split: sum.splits if_splits prod.splits dest: handle_closing_fill_events)

lemma handle_sell_order_fill_events:
  "handle_sell_order_fill s f = Inl (e, s') \<Longrightarrow>
     events s' = events s \<and> execution_ids s' = execution_ids s"
  "handle_sell_order_fill s f = Inr s' \<Longrightarrow>
     events s' = events s \<and> execution_ids s' = execution_ids s"
  unfolding handle_sell_order_fill_def Let_def
  by (auto split: sum.splits if_splits prod.splits dest: handle_closing_fill_events)

lemma set_state_events:
  "events (set_state s f) = events s" "execution_ids (set_state s f) = execution_ids s"
  by (simp_all add: set_state_def)

lemma Position_apply_duplicate:
  "execution_id f \<in> set (execution_ids p) \<Longrightarrow> Position_apply p f = Inl (KeyError, p)"
  by (simp add: Position_apply_def)

lemma Position_apply_appends:
  assumes "execution_id f \<notin> set (execution_ids p)"
  shows "events (state_after (Position_apply p f)) = events p @ [f] \<and>
         execution_ids (state_after (Position_apply p f)) = execution_ids p @ [execution_id f]"
  using assms
  unfolding Position_apply_def Let_def state_after_def
  by (auto split: sum.splits OrderSide.splits prod.splits
      dest!: handle_buy_order_fill_events handle_sell_order_fill_events
      simp: set_state_events)

lemma ids_consistent_apply:
  assumes "ids_consistent p"
  shows "ids_consistent (state_after (Position_apply p f))"
proof (cases "execution_id f \<in> set (execution_ids p)")
  case True
  with assms show ?thesis by (simp add: Position_apply_duplicate state_after_def)
next
  case False
  with assms Position_apply_appends [OF False] show ?thesis
    by (auto simp: ids_consistent_def)
qed

lemma ids_consistent_apply_fills:
  "ids_consistent p \<Longrightarrow> ids_consistent (apply_fills p fs)"
  by (induction fs arbitrary: p) (simp_all add: ids_consistent_apply)

lemma ids_consistent_init:
  assumes "Position_init i f = Inr p"
  shows "ids_consistent p"
proof -
  from assms obtain q
    where q: "Position_apply q f = Inr p" "events q = []" "execution_ids q = []"
    unfolding Position_init_def
    by (auto split: if_splits sum.splits option.splits prod.splits)
  have "ids_consistent q" using q by (simp add: ids_consistent_def)
  from ids_consistent_apply [OF this, of f] q(1) show ?thesis by (simp add: state_after_def)
qed

text \<open>
  Claim C4: in every state \<open>p\<close> of a position (made by the constructor and any sequence of
  \<^verbatim>\<open>apply\<close> calls, raised or returned), applying a fill whose execution ID is among the
  position's execution IDs raises \<^verbatim>\<open>KeyError\<close> and leaves the position as it was, in
  every field; and no execution ID occurs twice among the position's events.
\<close>

theorem duplicate_fill_rejected:
  assumes "Position_init instrument f0 = Inr p0" and "p = apply_fills p0 fs"
  shows "(execution_id fill \<in> set (execution_ids_c p) \<longrightarrow>
            Position_apply p fill = Inl (KeyError, p))
         \<and> distinct (execution_ids_c p)"
proof -
  have "ids_consistent p"
    using assms ids_consistent_init ids_consistent_apply_fills by blast
  then show ?thesis
    by (auto simp: ids_consistent_def execution_ids_c_def Position_apply_duplicate)
qed


lemma long_position_init:
  "Position_init (audusd 1) (a_fill ''AUD/USD.SIM'' ''E-1'' BUY 5 10 (usd 0) 1)
   = Inr long_position"
  by (simp add: long_position_def example_defs position_defs Let_def)

theorem duplicate_fill_rejected_witness:
  "Position_apply (apply_fills long_position [sell_three]) sell_three
     = Inl (KeyError, apply_fills long_position [sell_three])
   \<and> distinct (execution_ids_c (apply_fills long_position [sell_three]))"
proof -
  have "execution_id sell_three
          \<in> set (execution_ids_c (apply_fills long_position [sell_three]))"
    by (simp add: long_position_def sell_three_def example_defs position_defs Let_def
        execution_ids_c_def state_after_def)
  with duplicate_fill_rejected [OF long_position_init refl, of sell_three "[sell_three]"]
  show ?thesis by blast
qed

subsection \<open>Side and sign of the net quantity\<close>

lemma set_state_side:
  "(0 < net_qty (set_state s f) \<longrightarrow> side (set_state s f) = LONG) \<and>
   (net_qty (set_state s f) < 0 \<longrightarrow> side (set_state s f) = SHORT) \<and>
   (net_qty (set_state s f) = 0 \<longrightarrow> side (set_state s f) = FLAT \<and>
      ts_closed (set_state s f) = fill_ts_event f \<and>
      duration_ns (set_state s f) = ts_closed (set_state s f) - ts_opened (set_state s f))"
  by (simp add: set_state_def)

lemma Position_apply_Inr_shape:
  "Position_apply p f = Inr p' \<Longrightarrow> \<exists>s. p' = (set_state s f)\<lparr>ts_last := fill_ts_event f\<rparr>"
  unfolding Position_apply_def Let_def
  by (auto split: if_splits sum.splits)

lemma Position_init_Inr_apply:
  "Position_init i f = Inr p' \<Longrightarrow> \<exists>p. Position_apply p f = Inr p'"
  unfolding Position_init_def
  by (auto split: if_splits sum.splits option.splits prod.splits)

text \<open>
  Claim C5: after every fill that \<^verbatim>\<open>apply\<close> applies without raising (the first one
  inside the constructor included), the side is LONG when the net quantity is positive,
  SHORT when it is negative and FLAT when it is zero; and in the flat case \<open>ts_closed\<close> is
  the fill's \<open>ts_event\<close> and \<open>duration_ns\<close> is \<open>ts_closed - ts_opened\<close>.
\<close>

theorem side_sign_invariant:
  assumes "Position_apply p fill = Inr p' \<or> Position_init instrument fill = Inr p'"
  shows "(0 < net_qty p' \<longrightarrow> side p' = LONG) \<and>
         (net_qty p' < 0 \<longrightarrow> side p' = SHORT) \<and>
         (net_qty p' = 0 \<longrightarrow>
            side p' = FLAT \<and> ts_closed p' = fill_ts_event fill \<and>
            duration_ns p' = ts_closed p' - ts_opened p')"
proof -
  from assms obtain q where "Position_apply q fill = Inr p'"
    using Position_init_Inr_apply by blast
  from Position_apply_Inr_shape [OF this] obtain s
    where p': "p' = (set_state s fill)\<lparr>ts_last := fill_ts_event fill\<rparr>" by blast
  show ?thesis using set_state_side [of s fill] by (simp add: p')
qed

theorem side_sign_invariant_witness:
  "net_qty (state_after (Position_apply long_position sell_five)) = 0
   \<and> side (state_after (Position_apply long_position sell_five)) = FLAT
   \<and> ts_closed (state_after (Position_apply long_position sell_five)) = 7
   \<and> duration_ns (state_after (Position_apply long_position sell_five)) = 6"
proof -
  let ?p' = "state_after (Position_apply long_position sell_five)"
  have ap: "Position_apply long_position sell_five = Inr ?p'"
    by (simp add: long_position_def sell_five_def example_defs position_defs Let_def
        state_after_def)
  have nq: "net_qty ?p' = 0" and op: "ts_opened ?p' = 1"
    by (simp_all add: long_position_def sell_five_def example_defs position_defs Let_def
        state_after_def)
  have ts: "fill_ts_event sell_five = 7" by (simp add: sell_five_def example_defs)
  from side_sign_invariant [OF disjI1, OF ap] nq
  have "side ?p' = FLAT \<and> ts_closed ?p' = fill_ts_event sell_five \<and>
        duration_ns ?p' = ts_closed ?p' - ts_opened ?p'" by blast
  with nq op ts show ?thesis by simp
qed

subsection \<open>Commissions\<close>

lemma calculate_pnl_cong:
  "is_inverse s = is_inverse t \<Longrightarrow> multiplier s = multiplier t \<Longrightarrow> side s = side t \<Longrightarrow>
   calculate_pnl s a b q = calculate_pnl t a b q"
  by (simp add: calculate_pnl_def calculate_points_def calculate_points_inverse_def
      split: sum.splits)

lemma calculate_pnl_closing_fields:
  "calculate_pnl (s\<lparr>avg_px_close := x, realized_points := y, realized_return := z\<rparr>) a b q =
   calculate_pnl s a b q"
  by (rule calculate_pnl_cong) simp_all

lemma calculate_pnl_event_fields:
  "calculate_pnl (s\<lparr>events := x, execution_ids := y, commissions := z\<rparr>) a b q =
   calculate_pnl s a b q"
  by (rule calculate_pnl_cong) simp_all

lemma handle_closing_fill_Inr:
  assumes "handle_closing_fill s f pnl0 = Inr (s', pnl)"
  shows "\<exists>g. calculate_pnl s (avg_px_open s) (price_value (last_px f))
               (qty_value (last_qty f)) = Inr g \<and>
             pnl = pnl0 + g \<and> realized_pnl s' = realized_pnl s \<and>
             commissions s' = commissions s \<and> cost_currency s' = cost_currency s"
  using assms unfolding handle_closing_fill_def Let_def
  by (auto split: sum.splits simp: calculate_pnl_closing_fields)

lemma handle_buy_order_fill_Inr:
  assumes "handle_buy_order_fill s f = Inr s'"
  shows "\<exists>g. (if net_qty s < 0
              then calculate_pnl s (avg_px_open s) (price_value (last_px f))
                     (qty_value (last_qty f)) = Inr g
              else g = 0) \<and>
     realized_pnl s' = Money_init (amount (realized_pnl s) + g -
        (if currency (commission f) = cost_currency s then amount (commission f) else 0))
        (cost_currency s) \<and>
     commissions s' = commissions s \<and> cost_currency s' = cost_currency s"
  using assms unfolding handle_buy_order_fill_def Let_def
  by (auto split: sum.splits if_splits prod.splits dest!: handle_closing_fill_Inr
      simp: add_diff_eq)

lemma handle_sell_order_fill_Inr:
  assumes "handle_sell_order_fill s f = Inr s'"
  shows "\<exists>g. (if 0 < net_qty s
              then calculate_pnl s (avg_px_open s) (price_value (last_px f))
                     (qty_value (last_qty f)) = Inr g
              else g = 0) \<and>
     realized_pnl s' = Money_init (amount (realized_pnl s) + g -
        (if currency (commission f) = cost_currency s then amount (commission f) else 0))
        (cost_currency s) \<and>
     commissions s' = commissions s \<and> cost_currency s' = cost_currency s"
  using assms unfolding handle_sell_order_fill_def Let_def
  by (auto split: sum.splits if_splits prod.splits dest!: handle_closing_fill_Inr
      simp: add_diff_eq)

lemma cum_commission_eq:
  "(case cm of None \<Rightarrow> 0 + amount c | Some m \<Rightarrow> Money_add m c)
   = (case cm of None \<Rightarrow> 0 | Some m \<Rightarrow> amount m) + amount c"
  by (simp add: Money_add_def split: option.splits)

lemma set_state_money:
  "realized_pnl (set_state s f) = realized_pnl s" "commissions (set_state s f) = commissions s"
  by (simp_all add: set_state_def)

text \<open>
  Claim C8: when \<^verbatim>\<open>apply\<close> applies a fill, the new realized PnL is the old one, plus the
  PnL \<open>g\<close> that \<^verbatim>\<open>_calculate_pnl\<close> gives for a closing fill (zero for any other fill, and
  in no case dependent on the commission), minus the fill's commission if and only if
  the commission's currency is the position's cost currency; and in every case the
  commission is added to the entry of the commissions dict under its own currency.
\<close>

theorem commission_handling:
  assumes "Position_apply p fill = Inr p'"
  shows "\<exists>g. (if (order_side fill = BUY \<and> net_qty p < 0) \<or> (order_side fill = SELL \<and> 0 < net_qty p)
              then calculate_pnl p (avg_px_open p) (price_value (last_px fill))
                     (qty_value (last_qty fill)) = Inr g
              else g = 0) \<and>
     realized_pnl p' = Money_init (amount (realized_pnl p) + g -
        (if currency (commission fill) = cost_currency p then amount (commission fill) else 0))
        (cost_currency p) \<and>
     commissions p' = (commissions p)(currency (commission fill) \<mapsto>
        Money_init ((case commissions p (currency (commission fill)) of
                       None \<Rightarrow> 0 | Some m \<Rightarrow> amount m)
                    + amount (commission fill)) (currency (commission fill)))"
proof (cases "order_side fill")
  case BUY
  from assms obtain s2 s3 where
    s2: "s2 = p\<lparr>events := events p @ [fill],
               execution_ids := execution_ids p @ [execution_id fill],
               commissions := (commissions p)(currency (commission fill) \<mapsto>
        Money_init ((case commissions p (currency (commission fill)) of
                       None \<Rightarrow> 0 | Some m \<Rightarrow> amount m)
                    + amount (commission fill)) (currency (commission fill)))\<rparr>"
    and s3: "handle_buy_order_fill s2 fill = Inr s3"
    and p': "realized_pnl p' = realized_pnl s3" "commissions p' = commissions s3"
    unfolding Position_apply_def Let_def cum_commission_eq
    by (auto split: if_splits sum.splits simp: BUY set_state_money)
  from handle_buy_order_fill_Inr [OF s3] obtain g where
    g: "if net_qty s2 < 0
        then calculate_pnl s2 (avg_px_open s2) (price_value (last_px fill))
               (qty_value (last_qty fill)) = Inr g
        else g = 0"
     "realized_pnl s3 = Money_init (amount (realized_pnl s2) + g -
        (if currency (commission fill) = cost_currency s2 then amount (commission fill) else 0))
        (cost_currency s2)"
     "commissions s3 = commissions s2" by blast
  show ?thesis
    using g p'
    by (intro exI [of _ g]) (auto simp: BUY s2 calculate_pnl_event_fields split: if_splits)
next
  case SELL
  from assms obtain s2 s3 where
    s2: "s2 = p\<lparr>events := events p @ [fill],
               execution_ids := execution_ids p @ [execution_id fill],
               commissions := (commissions p)(currency (commission fill) \<mapsto>
        Money_init ((case commissions p (currency (commission fill)) of
                       None \<Rightarrow> 0 | Some m \<Rightarrow> amount m)
                    + amount (commission fill)) (currency (commission fill)))\<rparr>"
    and s3: "handle_sell_order_fill s2 fill = Inr s3"
    and p': "realized_pnl p' = realized_pnl s3" "commissions p' = commissions s3"
    unfolding Position_apply_def Let_def cum_commission_eq
    by (auto split: if_splits sum.splits simp: SELL set_state_money)
  from handle_sell_order_fill_Inr [OF s3] obtain g where
    g: "if 0 < net_qty s2
        then calculate_pnl s2 (avg_px_open s2) (price_value (last_px fill))
               (qty_value (last_qty fill)) = Inr g
        else g = 0"
     "realized_pnl s3 = Money_init (amount (realized_pnl s2) + g -
        (if currency (commission fill) = cost_currency s2 then amount (commission fill) else 0))
        (cost_currency s2)"
     "commissions s3 = commissions s2" by blast
  show ?thesis
    using g p'
    by (intro exI [of _ g]) (auto simp: SELL s2 calculate_pnl_event_fields split: if_splits)
qed

theorem commission_handling_witness:
  "realized_pnl (state_after (Position_apply long_position sell_three)) = usd 4
   \<and> commissions (state_after (Position_apply long_position sell_three)) ''USD''
       = Some (usd 2)"
proof -
  let ?p' = "state_after (Position_apply long_position sell_three)"
  have ap: "Position_apply long_position sell_three = Inr ?p'"
    by (simp add: long_position_def sell_three_def example_defs position_defs Let_def
        state_after_def)
  have facts: "order_side sell_three = SELL" "0 < net_qty long_position"
    "calculate_pnl long_position (avg_px_open long_position)
       (price_value (last_px sell_three)) (qty_value (last_qty sell_three)) = Inr 6"
    "realized_pnl long_position = usd 0" "commission sell_three = usd 2"
    "cost_currency long_position = ''USD''" "commissions long_position ''USD'' = Some (usd 0)"
    by (simp_all add: long_position_def sell_three_def example_defs position_defs Let_def)
  from commission_handling [OF ap] facts show ?thesis
    by (auto simp: usd_def Money_init_def)
qed

subsection \<open>Unrealized and total PnL of a flat position\<close>













section \<open>Properties of the bar builder and the aggregators\<close>

lemmas bar_defs =
  BarAggregator_init_def BarBuilder_init_def update_builder_def BarBuilder_update_def
  build_now_and_send_def build_and_send_def BarBuilder_build_def BarBuilder_reset_def

lemmas bar_example_defs =
  volume_aggregator_def volume_aggregator_60_def volume_bar_type_def minute_aggregator_def
  minute_bar_type_def audusd_def px_def sz_def

subsection \<open>Out-of-order ticks\<close>

text \<open>
  Claim C7: for every state of a \<^verbatim>\<open>BarBuilder\<close> and every update whose \<open>ts_event\<close> is
  strictly less than the builder's \<open>ts_last\<close>, \<^verbatim>\<open>update\<close> returns (it does not raise) and
  the builder is as it was, in every field.
\<close>

theorem out_of_order_tick_dropped:
  assumes "sint ts_event < sint (b_ts_last self)"
  shows "BarBuilder_update self price tick_size ts_event = Inr self"
  using assms by (simp add: BarBuilder_update_def)

theorem out_of_order_tick_dropped_witness:
  "BarBuilder_update (builder volume_aggregator_60) (px (11 / 10)) (sz 80) 0
   = Inr (builder volume_aggregator_60)"
  using out_of_order_tick_dropped
    [of 0 "builder volume_aggregator_60" "px (11 / 10)" "sz 80"]
  by (simp add: volume_aggregator_60_def)

subsection \<open>Volume bars\<close>

lemma builder_wf_init: "BarBuilder_init instrument bt = Inr b \<Longrightarrow> builder_wf b"
  by (auto simp: BarBuilder_init_def builder_wf_def split: if_splits)

lemma builder_wf_update:
  "builder_wf b \<Longrightarrow> BarBuilder_update b price q ts = Inr b' \<Longrightarrow> builder_wf b'"
  unfolding BarBuilder_update_def builder_wf_def
  by (auto split: if_splits option.splits)

lemma builder_wf_reset: "builder_wf (BarBuilder_reset b)"
  by (cases "b_close b") (simp_all add: BarBuilder_reset_def builder_wf_def)

lemma builder_wf_build:
  "BarBuilder_build b ts = Inr (bar, b') \<Longrightarrow> builder_wf b'"
  unfolding BarBuilder_build_def Let_def
  by (auto split: sum.splits prod.splits option.splits if_splits simp: builder_wf_reset)

lemma update_builder_frame:
  "update_builder self price q ts = Inr self1 \<Longrightarrow>
     handled self1 = handled self \<and> agg_bar_type self1 = agg_bar_type self"
  "update_builder self price q ts = Inl (e, self1) \<Longrightarrow> self1 = self"
  by (auto simp: update_builder_def split: sum.splits)

lemma update_builder_in_order:
  assumes "\<not> sint ts < sint (b_ts_last (builder self))"
    and "builder_wf (builder self)"
  shows "\<exists>self1. update_builder self price q ts = Inr self1 \<and>
           volume (builder self1) = volume (builder self) + qty_value q \<and>
           b_close (builder self1) = Some price \<and> b_open (builder self1) \<noteq> None \<and>
           b_high (builder self1) \<noteq> None \<and> b_low (builder self1) \<noteq> None \<and>
           b_ts_last (builder self1) = ts \<and>
           b_size_precision (builder self1) = b_size_precision (builder self) \<and>
           handled self1 = handled self \<and> agg_bar_type self1 = agg_bar_type self"
  using assms
  unfolding update_builder_def BarBuilder_update_def builder_wf_def
  by (auto split: option.splits)

lemma build_and_send_Inr:
  assumes "build_and_send self ts = Inr self2"
  shows "\<exists>bar. handled self2 = handled self @ [bar] \<and> agg_bar_type self2 = agg_bar_type self \<and>
           volume (builder self2) = 0 \<and> count (builder self2) = 0 \<and>
           bar_ts_event bar = ts \<and>
           Quantity_init (volume (builder self)) (b_size_precision (builder self))
             = Inr (bar_volume bar) \<and>
           (b_open (builder self) \<noteq> None \<longrightarrow>
              b_close (builder self) = Some (bar_close bar) \<and>
              b_open (builder self) = Some (bar_open bar) \<and>
              b_high (builder self) = Some (bar_high bar) \<and>
              b_low (builder self) = Some (bar_low bar) \<and>
              b_close (builder self2) = b_close (builder self) \<and>
              b_open (builder self2) = b_close (builder self))"
  using assms
  unfolding build_and_send_def BarBuilder_build_def BarBuilder_reset_def Let_def
  by (auto split: sum.splits prod.splits option.splits if_splits)

lemma build_and_send_Inl:
  "build_and_send self ts = Inl (e, self2) \<Longrightarrow>
     handled self2 = handled self \<and> agg_bar_type self2 = agg_bar_type self"
  unfolding build_and_send_def
  by (auto split: sum.splits prod.splits)

lemma build_and_send_succeeds:
  assumes "b_open (builder self) \<noteq> None" "b_high (builder self) \<noteq> None"
    "b_low (builder self) \<noteq> None" "b_close (builder self) \<noteq> None"
    "Quantity_init (volume (builder self)) (b_size_precision (builder self)) = Inr v"
  shows "\<exists>self2. build_and_send self ts = Inr self2"
  using assms
  unfolding build_and_send_def BarBuilder_build_def Let_def
  by auto

text \<open>
  The loop of the volume aggregator ends whenever the step is positive, and the bars it
  has handed to the handler are never taken back.
\<close>

lemma volume_loop_terminates:
  assumes "0 < step (spec (agg_bar_type self))"
  shows "\<exists>r. VolumeBarAggregator_loop self price prec ts u = Some r \<and>
             (\<exists>bs. handled (state_after r) = handled self @ bs)"
  using assms
proof (induction "nat \<lceil>(u + volume (builder self)) / of_int (step (spec (agg_bar_type self)))\<rceil>"
    arbitrary: self u rule: less_induct)
  case less
  let ?step = "of_int (step (spec (agg_bar_type self))) :: rat"
  let ?v = "volume (builder self)"
  have sp: "0 < ?step" using less.prems by simp
  show ?case
  proof (cases "0 < u")
    case False
    then show ?thesis
      by (subst VolumeBarAggregator_loop.simps) (simp add: state_after_def)
  next
    case pos: True
    show ?thesis
    proof (cases "?v + u < ?step")
      case True
      then show ?thesis using pos
        by (subst VolumeBarAggregator_loop.simps)
          (auto simp: state_after_def update_builder_def split: sum.splits)
    next
      case ge: False
      show ?thesis
      proof (cases "Quantity_init (?step - ?v) prec")
        case (Inl e)
        then show ?thesis using pos ge
          by (subst VolumeBarAggregator_loop.simps) (simp add: state_after_def)
      next
        case q: (Inr q)
        show ?thesis
        proof (cases "update_builder self price q ts")
          case (Inl e)
          then obtain e' s' where e: "e = (e', s')" by (cases e)
          with Inl update_builder_frame(2) [of self price q ts e' s']
          have "s' = self" by simp
          then show ?thesis using pos ge q Inl e
            by (subst VolumeBarAggregator_loop.simps) (simp add: state_after_def)
        next
          case u1: (Inr self1)
          note f1 = update_builder_frame(1) [OF u1]
          show ?thesis
          proof (cases "build_now_and_send self1")
            case (Inl e)
            then obtain e' s' where e: "e = (e', s')" by (cases e)
            with Inl build_and_send_Inl [of self1 _ e' s'] f1
            have "handled s' = handled self" by (simp add: build_now_and_send_def)
            then show ?thesis using pos ge q u1 Inl e
              by (subst VolumeBarAggregator_loop.simps) (simp add: state_after_def)
          next
            case b2: (Inr self2)
            from build_and_send_Inr [OF b2 [unfolded build_now_and_send_def]] f1
            obtain bar where f2: "handled self2 = handled self @ [bar]"
              "agg_bar_type self2 = agg_bar_type self" "volume (builder self2) = 0"
              by auto
            let ?u' = "u - (?step - ?v)"
            have nonneg: "\<not> ?u' < 0" using ge by simp
            have eq: "VolumeBarAggregator_loop self price prec ts u =
                      VolumeBarAggregator_loop self2 price prec ts ?u'"
              using pos ge q u1 b2 nonneg
              by (subst VolumeBarAggregator_loop.simps) simp
            have x: "(?u' + volume (builder self2)) / ?step = (u + ?v) / ?step - 1"
              using sp f2 by (simp add: field_simps)
            have "1 \<le> (u + ?v) / ?step" using ge sp by (simp add: field_simps)
            then have "nat \<lceil>(u + ?v) / ?step - 1\<rceil> < nat \<lceil>(u + ?v) / ?step\<rceil>"
              by linarith
            with x f2 have dec:
              "nat \<lceil>(?u' + volume (builder self2))
                     / of_int (step (spec (agg_bar_type self2)))\<rceil>
               < nat \<lceil>(u + ?v) / ?step\<rceil>" by simp
            from less.hyps [OF dec] less.prems f2
            obtain r bs where "VolumeBarAggregator_loop self2 price prec ts ?u' = Some r"
              "handled (state_after r) = handled self2 @ bs" by auto
            with eq f2 show ?thesis by auto
          qed
        qed
      qed
    qed
  qed
qed

lemma volume_aggregator_eq:
  "volume_aggregator = \<lparr>agg_bar_type = volume_bar_type,
     builder = \<lparr>b_bar_type = volume_bar_type, b_price_precision = 2, b_size_precision = 0,
       initialized = False, b_ts_last = 0, count = 0, partial_set = False,
       b_last_close = None, b_open = None, b_high = None, b_low = None, b_close = None,
       volume = 0\<rparr>, handled = []\<rparr>"
  by (simp add: volume_aggregator_def bar_defs audusd_def volume_bar_type_def)

lemma volume_first_update:
  "VolumeBarAggregator_apply_update volume_aggregator (px 1) (sz 60) t =
   Some (if sint t < 0 then Inr volume_aggregator
         else Inr (volume_aggregator_60\<lparr>builder :=
                     (builder volume_aggregator_60)\<lparr>b_ts_last := t\<rparr>\<rparr>))"
  unfolding VolumeBarAggregator_apply_update_def
  by (subst VolumeBarAggregator_loop.simps)
     (simp add: volume_aggregator_60_def volume_aggregator_eq volume_bar_type_def sz_def px_def
        update_builder_def BarBuilder_update_def)

text \<open>
  Claim C2, as the specification states it, fails for an update that is out of order:
  with step 100, after (price 1.0, size 60) at time 10, the update (price 1.1, size 80)
  at time 5 is dropped by the builder, yet the aggregator builds a bar: the bar has volume
  60, not 100, and the builder is left with volume 0 at price 1.0, not 40 at 1.1.
\<close>

theorem volume_bar_split_counterexample:
  "map_option (map_sum id volume_observed)
     (apply_two_updates volume_aggregator (px 1) (sz 60) 10 (px (11 / 10)) (sz 80) 5)
   = Some (Inr ([60], 0, Some 1))"
  unfolding apply_two_updates_def volume_first_update
  apply (simp add: VolumeBarAggregator_apply_update_def)
  apply (subst VolumeBarAggregator_loop.simps)
  apply (simp add: volume_aggregator_60_def volume_aggregator_eq volume_bar_type_def sz_def
      px_def bar_defs)
  apply (subst VolumeBarAggregator_loop.simps)
  apply (simp add: volume_bar_type_def sz_def px_def bar_defs volume_observed_def)
  done

lemma volume_bar_split_step:
  assumes pos: "0 < qty_value tick_size"
    and over: "of_int (step (spec (agg_bar_type self)))
               \<le> volume (builder self) + qty_value tick_size"
    and stp: "0 < step (spec (agg_bar_type self))"
    and ord: "\<not> sint ts_event < sint (b_ts_last (builder self))"
    and rem: "Quantity_init (of_int (step (spec (agg_bar_type self))) - volume (builder self))
                (qty_prec tick_size) = Inr remainder"
             "qty_value remainder
              = of_int (step (spec (agg_bar_type self))) - volume (builder self)"
    and wf: "builder_wf (builder self)"
  shows "\<exists>self1 self2 bar.
     update_builder self price remainder ts_event = Inr self1 \<and>
     volume (builder self1) = of_int (step (spec (agg_bar_type self))) \<and>
     build_now_and_send self1 = Inr self2 \<and>
     handled self2 = handled self @ [bar] \<and>
     qty_value (bar_volume bar) = of_int (step (spec (agg_bar_type self))) \<and>
     bar_close bar = price \<and> bar_ts_event bar = ts_event \<and>
     volume (builder self2) = 0 \<and>
     VolumeBarAggregator_apply_update self price tick_size ts_event =
       VolumeBarAggregator_loop self2 price (qty_prec tick_size) ts_event
         (qty_value tick_size
          - (of_int (step (spec (agg_bar_type self))) - volume (builder self))) \<and>
     (\<exists>r bs. VolumeBarAggregator_apply_update self price tick_size ts_event = Some r \<and>
             handled (state_after r) = handled self @ bar # bs)"
proof -
  let ?step = "of_int (step (spec (agg_bar_type self))) :: rat"
  from update_builder_in_order [OF ord wf, of price remainder] obtain self1 where
    u1: "update_builder self price remainder ts_event = Inr self1"
    and v1: "volume (builder self1) = ?step"
    and c1: "b_close (builder self1) = Some price" "b_open (builder self1) \<noteq> None"
       "b_ts_last (builder self1) = ts_event"
    and hl: "b_high (builder self1) \<noteq> None" "b_low (builder self1) \<noteq> None"
    and f1: "handled self1 = handled self" "agg_bar_type self1 = agg_bar_type self"
    using rem(2) by auto
  have qs: "Quantity_init (volume (builder self1)) (b_size_precision (builder self1))
            = Inr \<lparr>qty_value = ?step, qty_prec = b_size_precision (builder self1)\<rparr>"
    using stp by (simp add: v1 Quantity_init_of_int)
  obtain self2 where b2: "build_now_and_send self1 = Inr self2"
    using build_and_send_succeeds [OF c1(2) hl _ qs] c1(1)
    unfolding build_now_and_send_def by auto
  from build_and_send_Inr [OF b2 [unfolded build_now_and_send_def]] obtain bar where
    bar: "handled self2 = handled self1 @ [bar]" "agg_bar_type self2 = agg_bar_type self1"
      "volume (builder self2) = 0" "bar_ts_event bar = b_ts_last (builder self1)"
      "Quantity_init (volume (builder self1)) (b_size_precision (builder self1))
         = Inr (bar_volume bar)"
      "b_close (builder self1) = Some (bar_close bar)"
    using c1 by auto
  have bv: "qty_value (bar_volume bar) = ?step"
    using bar(5) qs by (cases "bar_volume bar") auto
  have nonneg: "\<not> qty_value tick_size - (?step - volume (builder self)) < 0"
    using over by simp
  have eq: "VolumeBarAggregator_apply_update self price tick_size ts_event =
       VolumeBarAggregator_loop self2 price (qty_prec tick_size) ts_event
         (qty_value tick_size - (?step - volume (builder self)))"
    unfolding VolumeBarAggregator_apply_update_def
    using pos over rem(1) u1 b2 nonneg
    by (subst VolumeBarAggregator_loop.simps) simp
  from volume_loop_terminates [of self2 price "qty_prec tick_size" ts_event
      "qty_value tick_size - (?step - volume (builder self))"] stp bar(2) f1(2)
  obtain r bs where
    "VolumeBarAggregator_loop self2 price (qty_prec tick_size) ts_event
       (qty_value tick_size - (?step - volume (builder self))) = Some r"
    "handled (state_after r) = handled self2 @ bs" by auto
  with eq bar(1) f1(1) have
    "\<exists>r bs. VolumeBarAggregator_apply_update self price tick_size ts_event = Some r \<and>
             handled (state_after r) = handled self @ bar # bs" by auto
  with u1 v1 b2 bar f1 bv c1 eq show ?thesis by auto
qed

lemma volume_bar_split_scenario:
  "apply_two_updates volume_aggregator (px 1) (sz 60) 1 (px (11 / 10)) (sz 80) 2 =
   Some (Inr \<lparr>agg_bar_type = volume_bar_type,
     builder = \<lparr>b_bar_type = volume_bar_type, b_price_precision = 2, b_size_precision = 0,
       initialized = True, b_ts_last = 2, count = 1, partial_set = False,
       b_last_close = Some (px (11 / 10)), b_open = Some (px (11 / 10)),
       b_high = Some (px (11 / 10)), b_low = Some (px (11 / 10)),
       b_close = Some (px (11 / 10)), volume = 40\<rparr>,
     handled = [\<lparr>bar_type = volume_bar_type, bar_open = px 1, bar_high = px (11 / 10),
       bar_low = px 1, bar_close = px (11 / 10), bar_volume = sz 100,
       bar_ts_event = 2, bar_ts_init = 2\<rparr>]\<rparr>)"
  unfolding apply_two_updates_def volume_first_update
  apply (simp add: VolumeBarAggregator_apply_update_def)
  apply (subst VolumeBarAggregator_loop.simps)
  apply (simp add: volume_aggregator_60_def volume_aggregator_eq volume_bar_type_def sz_def
      px_def bar_defs)
  apply (subst VolumeBarAggregator_loop.simps)
  apply (simp add: volume_bar_type_def sz_def px_def bar_defs)
  done

lemma volume_bar_split_scenario_any_time:
  assumes "\<not> sint t1 < 0" "\<not> sint t2 < sint t1"
  shows "map_option (map_sum id volume_observed)
       (apply_two_updates volume_aggregator (px 1) (sz 60) t1 (px (11 / 10)) (sz 80) t2)
     = Some (Inr ([100], 40, Some (11 / 10)))"
  using assms
  unfolding apply_two_updates_def volume_first_update
  apply (simp add: VolumeBarAggregator_apply_update_def)
  apply (subst VolumeBarAggregator_loop.simps)
  apply (simp add: volume_aggregator_60_def volume_aggregator_eq volume_bar_type_def sz_def
      px_def bar_defs)
  apply (subst VolumeBarAggregator_loop.simps)
  apply (simp add: volume_bar_type_def sz_def px_def bar_defs volume_observed_def)
  done

text \<open>
  Claim C2, amended: for a volume aggregator with a positive step, whose builder is one
  the class makes (\<open>builder_wf\<close>), and for every update that is not out of order
  (\<open>ts_event\<close> not less than the builder's \<open>ts_last\<close>), of positive size, that makes the
  accumulated volume reach or exceed the step, with the remainder \<open>step - volume\<close> a
  quantity at the size's precision: exactly the remainder is added to the current bar, a
  bar with volume equal to the step (closing at the update's price and time) is handed to
  the handler, the builder starts again from volume 0, the residual size is applied by the
  same loop at the same price and \<open>ts_event\<close>, and the call returns with that bar among
  the handled ones. In particular with step 100, applying (1.0, 60) and then (1.1, 80) at
  times that do not decrease hands over one bar, of volume 100, and leaves the builder
  holding the residual volume 40 at price 1.1.
\<close>

theorem volume_bar_split:
  assumes "0 < qty_value tick_size"
    and "of_int (step (spec (agg_bar_type self)))
         \<le> volume (builder self) + qty_value tick_size"
    and "0 < step (spec (agg_bar_type self))"
    and "\<not> sint ts_event < sint (b_ts_last (builder self))"
    and "Quantity_init (of_int (step (spec (agg_bar_type self))) - volume (builder self))
           (qty_prec tick_size) = Inr remainder"
    and "qty_value remainder
         = of_int (step (spec (agg_bar_type self))) - volume (builder self)"
    and "builder_wf (builder self)"
  shows "(\<exists>self1 self2 bar.
     update_builder self price remainder ts_event = Inr self1 \<and>
     volume (builder self1) = of_int (step (spec (agg_bar_type self))) \<and>
     build_now_and_send self1 = Inr self2 \<and>
     handled self2 = handled self @ [bar] \<and>
     qty_value (bar_volume bar) = of_int (step (spec (agg_bar_type self))) \<and>
     bar_close bar = price \<and> bar_ts_event bar = ts_event \<and>
     volume (builder self2) = 0 \<and>
     VolumeBarAggregator_apply_update self price tick_size ts_event =
       VolumeBarAggregator_loop self2 price (qty_prec tick_size) ts_event
         (qty_value tick_size
          - (of_int (step (spec (agg_bar_type self))) - volume (builder self))) \<and>
     (\<exists>r bs. VolumeBarAggregator_apply_update self price tick_size ts_event = Some r \<and>
             handled (state_after r) = handled self @ bar # bs))
   \<and> (\<forall>t1 t2. \<not> sint t1 < 0 \<and> \<not> sint t2 < sint t1 \<longrightarrow>
        map_option (map_sum id volume_observed)
          (apply_two_updates volume_aggregator (px 1) (sz 60) t1 (px (11 / 10)) (sz 80) t2)
        = Some (Inr ([100], 40, Some (11 / 10))))"
  using volume_bar_split_step [OF assms, of price] volume_bar_split_scenario_any_time
  by blast

theorem volume_bar_split_witness:
  "(\<exists>r bs bar.
     VolumeBarAggregator_apply_update volume_aggregator_60 (px (11 / 10)) (sz 80) 2 = Some r \<and>
     handled (state_after r) = bar # bs \<and> qty_value (bar_volume bar) = 100 \<and>
     bar_close bar = px (11 / 10) \<and> bar_ts_event bar = 2)
   \<and> map_option (map_sum id volume_observed)
       (apply_two_updates volume_aggregator (px 1) (sz 60) 1 (px (11 / 10)) (sz 80) 2)
     = Some (Inr ([100], 40, Some (11 / 10)))"
proof -
  have "\<forall>t1 t2. \<not> sint t1 < 0 \<and> \<not> sint t2 < sint t1 \<longrightarrow>
        map_option (map_sum id volume_observed)
          (apply_two_updates volume_aggregator (px 1) (sz 60) t1 (px (11 / 10)) (sz 80) t2)
        = Some (Inr ([100], 40, Some (11 / 10)))"
    using volume_bar_split [of "sz 80" volume_aggregator_60 2 "sz 40" "px (11 / 10)"]
    by (simp add: volume_aggregator_60_def volume_aggregator_eq volume_bar_type_def sz_def
        builder_wf_def)
  from this [rule_format, of 1 2] have scenario:
    "map_option (map_sum id volume_observed)
       (apply_two_updates volume_aggregator (px 1) (sz 60) 1 (px (11 / 10)) (sz 80) 2)
     = Some (Inr ([100], 40, Some (11 / 10)))" by simp
  have "\<exists>self1 self2 bar.
     update_builder volume_aggregator_60 (px (11 / 10)) (sz 40) 2 = Inr self1 \<and>
     volume (builder self1) = of_int (step (spec (agg_bar_type volume_aggregator_60))) \<and>
     build_now_and_send self1 = Inr self2 \<and>
     handled self2 = handled volume_aggregator_60 @ [bar] \<and>
     qty_value (bar_volume bar) = of_int (step (spec (agg_bar_type volume_aggregator_60))) \<and>
     bar_close bar = px (11 / 10) \<and> bar_ts_event bar = 2 \<and>
     volume (builder self2) = 0 \<and>
     VolumeBarAggregator_apply_update volume_aggregator_60 (px (11 / 10)) (sz 80) 2 =
       VolumeBarAggregator_loop self2 (px (11 / 10)) (qty_prec (sz 80)) 2
         (qty_value (sz 80)
          - (of_int (step (spec (agg_bar_type volume_aggregator_60)))
             - volume (builder volume_aggregator_60))) \<and>
     (\<exists>r bs. VolumeBarAggregator_apply_update volume_aggregator_60 (px (11 / 10)) (sz 80) 2
               = Some r \<and>
             handled (state_after r) = handled volume_aggregator_60 @ bar # bs)"
    using volume_bar_split [of "sz 80" volume_aggregator_60 2 "sz 40" "px (11 / 10)"]
    by (simp add: volume_aggregator_60_def volume_aggregator_eq volume_bar_type_def sz_def
        builder_wf_def)
  then have "\<exists>r bs bar.
     VolumeBarAggregator_apply_update volume_aggregator_60 (px (11 / 10)) (sz 80) 2 = Some r \<and>
     handled (state_after r) = bar # bs \<and> qty_value (bar_volume bar) = 100 \<and>
     bar_close bar = px (11 / 10) \<and> bar_ts_event bar = 2"
    by (auto simp: volume_aggregator_60_def volume_aggregator_eq volume_bar_type_def)
  with scenario show ?thesis by (rule conjI [rotated])
qed


subsection \<open>Time bars under a test clock\<close>

lemmas time_defs =
  TimeBarAggregator_apply_update_def build_bar_def build_event_def pop_next_event_def

lemma build_bar_eq:
  assumes "timer (clock self) = Some t"
  shows "build_bar self x =
     (if initialized (builder self) then
        (case build_and_send
                (self\<lparr>clock := (clock self)\<lparr>timer :=
                   Some (t\<lparr>next_time_ns := next_time_ns t + timer_interval_ns t\<rparr>)\<rparr>\<rparr>)
                (next_time_ns t) of
           Inl e \<Rightarrow> Inl e
         | Inr self1 \<Rightarrow> Inr (self1\<lparr>next_close_ns := next_time_ns t + timer_interval_ns t\<rparr>))
      else
        Inr (self\<lparr>clock := (clock self)\<lparr>timer :=
                   Some (t\<lparr>next_time_ns := next_time_ns t + timer_interval_ns t\<rparr>)\<rparr>,
                 build_on_next_tick := True, stored_close_ns := next_close_ns self,
                 next_close_ns := next_time_ns t + timer_interval_ns t\<rparr>))"
  using assms
  by (simp add: build_bar_def build_event_def pop_next_event_def split: sum.splits)

lemma straddle_before:
  assumes "is_test_clock (clock self)" "sint (next_close_ns self) < sint ts_event"
    "timer (clock self) = Some t" "initialized (builder self)"
    "TimeBarAggregator_apply_update self price tick_size ts_event = Inr self'"
  shows "\<exists>bar. handled self' = handled self @ [bar] \<and> bar_ts_event bar = next_time_ns t \<and>
           Quantity_init (volume (builder self)) (b_size_precision (builder self))
             = Inr (bar_volume bar) \<and>
           next_close_ns self' = next_time_ns t + timer_interval_ns t \<and>
           (\<not> sint ts_event < sint (b_ts_last (builder self)) \<longrightarrow>
              volume (builder self') = qty_value tick_size \<and>
              b_close (builder self') = Some price \<and> count (builder self') = 1)"
proof -
  let ?s0 = "self\<lparr>clock := (clock self)\<lparr>timer :=
                   Some (t\<lparr>next_time_ns := next_time_ns t + timer_interval_ns t\<rparr>)\<rparr>\<rparr>"
  from assms obtain s1 where
    b: "build_and_send ?s0 (next_time_ns t) = Inr s1"
    and u: "update_builder (s1\<lparr>next_close_ns := next_time_ns t + timer_interval_ns t\<rparr>)
              price tick_size ts_event = Inr self'"
    by (auto simp: TimeBarAggregator_apply_update_def build_bar_eq split: sum.splits)
  from build_and_send_Inr [OF b] obtain bar where
    bar: "handled s1 = handled self @ [bar]" "bar_ts_event bar = next_time_ns t"
      "Quantity_init (volume (builder self)) (b_size_precision (builder self))
         = Inr (bar_volume bar)"
      "volume (builder s1) = 0" "count (builder s1) = 0"
    by auto
  have ts1: "b_ts_last (builder s1) = b_ts_last (builder self)"
    using b unfolding build_and_send_def BarBuilder_build_def BarBuilder_reset_def Let_def
    by (auto split: sum.splits prod.splits option.splits if_splits)
  from u bar ts1 show ?thesis
    unfolding update_builder_def BarBuilder_update_def
    by (auto split: sum.splits option.splits if_splits)
qed

lemma straddle_equal:
  assumes "is_test_clock (clock self)" "next_close_ns self = ts_event"
    "timer (clock self) = Some t" "\<not> sint ts_event < sint (b_ts_last (builder self))"
    "TimeBarAggregator_apply_update self price tick_size ts_event = Inr self'"
    "b_open (builder self) = None \<or> initialized (builder self)"
  shows "\<exists>bar. handled self' = handled self @ [bar] \<and> bar_ts_event bar = next_time_ns t \<and>
           bar_close bar = price \<and>
           Quantity_init (volume (builder self) + qty_value tick_size)
               (b_size_precision (builder self)) = Inr (bar_volume bar) \<and>
           next_close_ns self' = next_time_ns t + timer_interval_ns t \<and>
           volume (builder self') = 0 \<and> count (builder self') = 0"
proof -
  from assms obtain s1 where
    u: "update_builder self price tick_size ts_event = Inr s1"
    and b: "build_bar s1 (next_close_ns s1) = Inr self'"
    by (auto simp: TimeBarAggregator_apply_update_def split: sum.splits)
  from u assms(4,6) have s1: "initialized (builder s1)" "timer (clock s1) = timer (clock self)"
    "volume (builder s1) = volume (builder self) + qty_value tick_size"
    "b_size_precision (builder s1) = b_size_precision (builder self)"
    "b_close (builder s1) = Some price" "b_open (builder s1) \<noteq> None"
    "handled s1 = handled self"
    unfolding update_builder_def BarBuilder_update_def
    by (auto split: sum.splits option.splits if_splits)
  let ?s0 = "s1\<lparr>clock := (clock s1)\<lparr>timer :=
                   Some (t\<lparr>next_time_ns := next_time_ns t + timer_interval_ns t\<rparr>)\<rparr>\<rparr>"
  from b s1 assms(3) obtain s2 where
    b2: "build_and_send ?s0 (next_time_ns t) = Inr s2"
    and s': "self' = s2\<lparr>next_close_ns := next_time_ns t + timer_interval_ns t\<rparr>"
    by (auto simp: build_bar_eq split: sum.splits)
  from build_and_send_Inr [OF b2] s1 obtain bar where
    "handled s2 = handled self @ [bar]" "bar_ts_event bar = next_time_ns t"
    "Quantity_init (volume (builder self) + qty_value tick_size)
       (b_size_precision (builder self)) = Inr (bar_volume bar)"
    "volume (builder s2) = 0" "count (builder s2) = 0" "bar_close bar = price"
    by auto
  with s' show ?thesis by auto
qed

text \<open>
  Claim C6, as the specification states it, fails twice on a one-minute aggregator under
  a test clock, constructed at time 0 (first close at 60 s). A first tick at 61 s
  (\<open>next_close_ns < ts_event\<close>) emits no bar: the builder has seen no tick, so
  \<^verbatim>\<open>_build_event\<close> only sets the \<^verbatim>\<open>_build_on_next_tick\<close> flag and stores the close time
  60 s. A second tick at 90 s (\<open>ts_event < next_close_ns\<close> = 120 s, the case called
  "otherwise") is not simply applied: after it a bar stamped 60 s is built, holding both
  ticks, and the flag is cleared.
\<close>

theorem time_bar_straddle_counterexample:
  "map_sum id time_observed
     (TimeBarAggregator_apply_update minute_aggregator (px 1) (sz 10) 61000000000)
   = Inr ([], True, 60000000000, 120000000000, 10)
   \<and> map_sum id time_observed
     (apply_two_ticks minute_aggregator (px 1) (sz 10) 61000000000
        (px 1) (sz 10) 90000000000)
   = Inr ([(60000000000, 20)], False, 0, 120000000000, 0)"
  by (simp add: minute_aggregator_def minute_bar_type_def audusd_def time_defs bar_defs
      time_observed_def apply_two_ticks_def px_def sz_def Let_def)

text \<open>
  Claim C6, amended: while the clock is a test clock, an update with
  \<open>next_close_ns < ts_event\<close> first runs \<^verbatim>\<open>_build_bar\<close> and then applies the update to
  the builder; one with \<open>next_close_ns = ts_event\<close> applies the update first and then
  runs \<^verbatim>\<open>_build_bar\<close>; any other applies the update and then, if \<^verbatim>\<open>_build_on_next_tick\<close>
  is set, builds and emits a bar stamped \<^verbatim>\<open>_stored_close_ns\<close> and clears the flag.
  \<^verbatim>\<open>_build_bar\<close> takes the timer's next event and moves \<open>next_close_ns\<close> on to the
  timer's next time; it builds and emits a bar stamped with the event's time only if the
  builder is initialized, and otherwise sets \<^verbatim>\<open>_build_on_next_tick\<close> and stores the old
  \<open>next_close_ns\<close>. So with an initialized builder the first case emits one bar holding
  the volume accumulated before the update, and the update starts the new bar; in the
  second case the emitted bar includes the update and the builder restarts empty.
\<close>

theorem time_bar_straddle_rule:
  assumes "is_test_clock (clock self)"
  shows "(sint (next_close_ns self) < sint ts_event \<longrightarrow>
            TimeBarAggregator_apply_update self price tick_size ts_event =
              (case build_bar self (next_close_ns self) of
                 Inl e \<Rightarrow> Inl e
               | Inr self1 \<Rightarrow> update_builder self1 price tick_size ts_event))
       \<and> (next_close_ns self = ts_event \<longrightarrow>
            TimeBarAggregator_apply_update self price tick_size ts_event =
              (case update_builder self price tick_size ts_event of
                 Inl e \<Rightarrow> Inl e
               | Inr self1 \<Rightarrow> build_bar self1 (next_close_ns self1)))
       \<and> (sint ts_event < sint (next_close_ns self) \<longrightarrow>
            TimeBarAggregator_apply_update self price tick_size ts_event =
              (case update_builder self price tick_size ts_event of
                 Inl e \<Rightarrow> Inl e
               | Inr self1 \<Rightarrow>
                   if build_on_next_tick self1 then
                     (case build_and_send self1 (stored_close_ns self1) of
                        Inl e \<Rightarrow> Inl e
                      | Inr self2 \<Rightarrow>
                          Inr (self2\<lparr>build_on_next_tick := False, stored_close_ns := 0\<rparr>))
                   else Inr self1))
       \<and> (\<forall>t. timer (clock self) = Some t \<longrightarrow>
            build_bar self (next_close_ns self) =
              (if initialized (builder self) then
                 (case build_and_send
                         (self\<lparr>clock := (clock self)\<lparr>timer :=
                            Some (t\<lparr>next_time_ns := next_time_ns t + timer_interval_ns t\<rparr>)\<rparr>\<rparr>)
                         (next_time_ns t) of
                    Inl e \<Rightarrow> Inl e
                  | Inr self1 \<Rightarrow>
                      Inr (self1\<lparr>next_close_ns := next_time_ns t + timer_interval_ns t\<rparr>))
               else
                 Inr (self\<lparr>clock := (clock self)\<lparr>timer :=
                            Some (t\<lparr>next_time_ns := next_time_ns t + timer_interval_ns t\<rparr>)\<rparr>,
                          build_on_next_tick := True, stored_close_ns := next_close_ns self,
                          next_close_ns := next_time_ns t + timer_interval_ns t\<rparr>)))
       \<and> (\<forall>t self'. sint (next_close_ns self) < sint ts_event \<and> timer (clock self) = Some t \<and>
            initialized (builder self) \<and>
            TimeBarAggregator_apply_update self price tick_size ts_event = Inr self' \<longrightarrow>
            (\<exists>bar. handled self' = handled self @ [bar] \<and> bar_ts_event bar = next_time_ns t \<and>
               Quantity_init (volume (builder self)) (b_size_precision (builder self))
                 = Inr (bar_volume bar) \<and>
               next_close_ns self' = next_time_ns t + timer_interval_ns t \<and>
               (\<not> sint ts_event < sint (b_ts_last (builder self)) \<longrightarrow>
                  volume (builder self') = qty_value tick_size \<and>
                  b_close (builder self') = Some price \<and> count (builder self') = 1)))
       \<and> (\<forall>t self'. next_close_ns self = ts_event \<and> timer (clock self) = Some t \<and>
            \<not> sint ts_event < sint (b_ts_last (builder self)) \<and>
            (b_open (builder self) = None \<or> initialized (builder self)) \<and>
            TimeBarAggregator_apply_update self price tick_size ts_event = Inr self' \<longrightarrow>
            (\<exists>bar. handled self' = handled self @ [bar] \<and> bar_ts_event bar = next_time_ns t \<and>
               bar_close bar = price \<and>
               Quantity_init (volume (builder self) + qty_value tick_size)
                   (b_size_precision (builder self)) = Inr (bar_volume bar) \<and>
               next_close_ns self' = next_time_ns t + timer_interval_ns t \<and>
               volume (builder self') = 0 \<and> count (builder self') = 0))"
proof (intro conjI impI allI)
  assume "sint (next_close_ns self) < sint ts_event"
  with assms show "TimeBarAggregator_apply_update self price tick_size ts_event =
      (case build_bar self (next_close_ns self) of
         Inl e \<Rightarrow> Inl e
       | Inr self1 \<Rightarrow> update_builder self1 price tick_size ts_event)"
    by (simp add: TimeBarAggregator_apply_update_def)
next
  assume "next_close_ns self = ts_event"
  with assms show "TimeBarAggregator_apply_update self price tick_size ts_event =
      (case update_builder self price tick_size ts_event of
         Inl e \<Rightarrow> Inl e
       | Inr self1 \<Rightarrow> build_bar self1 (next_close_ns self1))"
    by (simp add: TimeBarAggregator_apply_update_def)
next
  assume lt: "sint ts_event < sint (next_close_ns self)"
  then have "next_close_ns self \<noteq> ts_event" by auto
  with lt show "TimeBarAggregator_apply_update self price tick_size ts_event =
      (case update_builder self price tick_size ts_event of
         Inl e \<Rightarrow> Inl e
       | Inr self1 \<Rightarrow>
           if build_on_next_tick self1 then
             (case build_and_send self1 (stored_close_ns self1) of
                Inl e \<Rightarrow> Inl e
              | Inr self2 \<Rightarrow>
                  Inr (self2\<lparr>build_on_next_tick := False, stored_close_ns := 0\<rparr>))
           else Inr self1)"
    by (simp add: TimeBarAggregator_apply_update_def)
next
  fix t assume "timer (clock self) = Some t"
  then show "build_bar self (next_close_ns self) =
      (if initialized (builder self) then
         (case build_and_send
                 (self\<lparr>clock := (clock self)\<lparr>timer :=
                    Some (t\<lparr>next_time_ns := next_time_ns t + timer_interval_ns t\<rparr>)\<rparr>\<rparr>)
                 (next_time_ns t) of
            Inl e \<Rightarrow> Inl e
          | Inr self1 \<Rightarrow>
              Inr (self1\<lparr>next_close_ns := next_time_ns t + timer_interval_ns t\<rparr>))
       else
         Inr (self\<lparr>clock := (clock self)\<lparr>timer :=
                    Some (t\<lparr>next_time_ns := next_time_ns t + timer_interval_ns t\<rparr>)\<rparr>,
                  build_on_next_tick := True, stored_close_ns := next_close_ns self,
                  next_close_ns := next_time_ns t + timer_interval_ns t\<rparr>))"
    by (rule build_bar_eq)
next
  fix t self'
  assume "sint (next_close_ns self) < sint ts_event \<and> timer (clock self) = Some t \<and>
            initialized (builder self) \<and>
            TimeBarAggregator_apply_update self price tick_size ts_event = Inr self'"
  with assms straddle_before [of self ts_event t price tick_size self']
  show "\<exists>bar. handled self' = handled self @ [bar] \<and> bar_ts_event bar = next_time_ns t \<and>
               Quantity_init (volume (builder self)) (b_size_precision (builder self))
                 = Inr (bar_volume bar) \<and>
               next_close_ns self' = next_time_ns t + timer_interval_ns t \<and>
               (\<not> sint ts_event < sint (b_ts_last (builder self)) \<longrightarrow>
                  volume (builder self') = qty_value tick_size \<and>
                  b_close (builder self') = Some price \<and> count (builder self') = 1)"
    by blast
next
  fix t self'
  assume "next_close_ns self = ts_event \<and> timer (clock self) = Some t \<and>
            \<not> sint ts_event < sint (b_ts_last (builder self)) \<and>
            (b_open (builder self) = None \<or> initialized (builder self)) \<and>
            TimeBarAggregator_apply_update self price tick_size ts_event = Inr self'"
  with assms straddle_equal [of self ts_event t price tick_size self']
  show "\<exists>bar. handled self' = handled self @ [bar] \<and> bar_ts_event bar = next_time_ns t \<and>
               bar_close bar = price \<and>
               Quantity_init (volume (builder self) + qty_value tick_size)
                   (b_size_precision (builder self)) = Inr (bar_volume bar) \<and>
               next_close_ns self' = next_time_ns t + timer_interval_ns t \<and>
               volume (builder self') = 0 \<and> count (builder self') = 0"
    by blast
qed

lemma minute_aggregator_ticked_eq:
  "minute_aggregator_ticked =
     minute_aggregator\<lparr>builder := (builder minute_aggregator)
       \<lparr>initialized := True, b_ts_last := 30000000000, count := 1, b_open := Some (px 1),
        b_high := Some (px 1), b_low := Some (px 1), b_close := Some (px 1), volume := 10\<rparr>\<rparr>"
  by (simp add: minute_aggregator_ticked_def minute_aggregator_def minute_bar_type_def
      audusd_def time_defs bar_defs state_after_def px_def sz_def)

theorem time_bar_straddle_rule_witness:
  "\<exists>bar. handled (state_after (TimeBarAggregator_apply_update minute_aggregator_ticked
                     (px (11 / 10)) (sz 5) 61000000000)) = [bar]
     \<and> bar_ts_event bar = 60000000000 \<and> bar_volume bar = sz 10
     \<and> volume (builder (state_after (TimeBarAggregator_apply_update minute_aggregator_ticked
                     (px (11 / 10)) (sz 5) 61000000000))) = 5"
proof -
  let ?r = "TimeBarAggregator_apply_update minute_aggregator_ticked
              (px (11 / 10)) (sz 5) 61000000000"
  have r: "?r = Inr (state_after ?r)"
    by (simp add: minute_aggregator_ticked_eq minute_aggregator_def minute_bar_type_def
        audusd_def time_defs bar_defs state_after_def px_def sz_def Let_def)
  have facts: "is_test_clock (clock minute_aggregator_ticked)"
    "sint (next_close_ns minute_aggregator_ticked) < sint (61000000000 :: int64_t)"
    "timer (clock minute_aggregator_ticked)
       = Some \<lparr>next_time_ns = 60000000000, timer_interval_ns = 60000000000\<rparr>"
    "initialized (builder minute_aggregator_ticked)"
    "\<not> sint (61000000000 :: int64_t) < sint (b_ts_last (builder minute_aggregator_ticked))"
    "handled minute_aggregator_ticked = []"
    "volume (builder minute_aggregator_ticked) = 10"
    "b_size_precision (builder minute_aggregator_ticked) = 0"
    by (simp_all add: minute_aggregator_ticked_eq minute_aggregator_def BarBuilder_init_def
        minute_bar_type_def audusd_def)
  from time_bar_straddle_rule [OF facts(1), of 61000000000 "px (11 / 10)" "sz 5"]
  have "\<forall>t self'. sint (next_close_ns minute_aggregator_ticked) < sint (61000000000 :: int64_t)
          \<and> timer (clock minute_aggregator_ticked) = Some t
          \<and> initialized (builder minute_aggregator_ticked) \<and> ?r = Inr self' \<longrightarrow>
          (\<exists>bar. handled self' = handled minute_aggregator_ticked @ [bar] \<and>
             bar_ts_event bar = next_time_ns t \<and>
             Quantity_init (volume (builder minute_aggregator_ticked))
                 (b_size_precision (builder minute_aggregator_ticked)) = Inr (bar_volume bar) \<and>
             next_close_ns self' = next_time_ns t + timer_interval_ns t \<and>
             (\<not> sint (61000000000 :: int64_t)
                  < sint (b_ts_last (builder minute_aggregator_ticked)) \<longrightarrow>
                volume (builder self') = qty_value (sz 5) \<and>
                b_close (builder self') = Some (px (11 / 10)) \<and> count (builder self') = 1))"
    by blast
  with r facts obtain bar where
    "handled (state_after ?r) = handled minute_aggregator_ticked @ [bar]"
    "bar_ts_event bar = 60000000000"
    "Quantity_init 10 0 = Inr (bar_volume bar)"
    "volume (builder (state_after ?r)) = qty_value (sz 5)"
    by (metis TestTimer.select_convs(1))
  then show ?thesis using facts(6) by (auto simp: sz_def)
qed


section \<open>Properties of the level 1 book\<close>

lemmas book_defs =
  update_tick_def update_quote_tick_def update_trade_tick_def update_bid_def update_ask_def
  Price_as_double_def Quantity_as_double_def bid_price_def ask_price_def bid_qty_def
  ask_qty_def is_crossed_def SimulatedL1OrderBook_init_def

lemmas book_example_defs = quote_100_101_def trade_at_def px_def sz_def

text \<open>The doubles of 0.99, 1, 1.01 and 1.02 (in lowest terms, 51 / 50).\<close>

lemma round_to_double_values:
  "round_to_double (99 / 100) = 4458563631096791 / 4503599627370496"
  "round_to_double 1 = 1"
  "round_to_double (101 / 100) = 4548635623644201 / 4503599627370496"
  "round_to_double (51 / 50) = 2296835809958953 / 2251799813685248"
  by code_simp+

text \<open>
  Claim C3, as the specification states it, fails where the crossing rule fires: from
  bid 1.00 / ask 1.01, a trade with a BUY aggressor at 0.99 sets the ask to 0.99 and then
  the bid to 0.99, so that afterwards bid = ask, which is crossed in the sense the claim
  gives to the word (bid >= ask).
\<close>

theorem l1_trade_tick_counterexample:
  "map_sum id book_observed
     (quote_then_trade SimulatedL1OrderBook_init quote_100_101
        (trade_at AggressorSide_BUY (99 / 100)))
   = Inr (Some (round_to_double (99 / 100)), Some (round_to_double (99 / 100)), True)"
  by (simp add: quote_then_trade_def book_observed_def book_example_defs book_defs Let_def
      round_to_double_values)

lemma l1_trade_tick_general:
  assumes "update_trade_tick self tick = Inr self'"
  shows "(aggressor_side tick = AggressorSide_SELL \<longrightarrow>
            bid_price self' = Some (Price_as_double (trade_price tick)) \<and>
            bid_qty self' = Some (Quantity_as_double (trade_size tick)) \<and>
            ask_qty self' = ask_qty self \<and>
            ask_price self'
              = map_option (max (Price_as_double (trade_price tick))) (ask_price self))
       \<and> (aggressor_side tick = AggressorSide_BUY \<longrightarrow>
            ask_price self' = Some (Price_as_double (trade_price tick)) \<and>
            ask_qty self' = Some (Quantity_as_double (trade_size tick)) \<and>
            bid_qty self' = bid_qty self \<and>
            bid_price self'
              = map_option (min (Price_as_double (trade_price tick))) (bid_price self))
       \<and> (aggressor_side tick \<noteq> AggressorSide_UNKNOWN \<longrightarrow>
            (case (bid_price self', ask_price self') of
               (Some b, Some a) \<Rightarrow> b \<le> a | _ \<Rightarrow> True))"
  using assms
  unfolding update_trade_tick_def update_bid_def update_ask_def bid_price_def ask_price_def
    bid_qty_def ask_qty_def Let_def
  by (auto split: AggressorSide.splits option.splits sum.splits if_splits
      simp: max_def min_def)

lemma l1_trade_tick_scenario:
  "map_sum id book_observed
     (quote_then_trade SimulatedL1OrderBook_init quote_100_101
        (trade_at AggressorSide_BUY (102 / 100)))
   = Inr (Some (round_to_double 1), Some (round_to_double (102 / 100)), False)"
  by (simp add: quote_then_trade_def book_observed_def book_example_defs book_defs Let_def
      round_to_double_values)

lemma book_consistent_init: "book_consistent SimulatedL1OrderBook_init"
  by (simp add: book_consistent_def SimulatedL1OrderBook_init_def)

lemma update_quote_tick_consistent:
  assumes "book_consistent self"
  shows "\<exists>self'. update_quote_tick self tick = Inr self' \<and> book_consistent self'"
  using assms
  unfolding update_quote_tick_def update_bid_def update_ask_def book_consistent_def
  by (auto split: option.splits)

lemma update_trade_tick_returns:
  assumes "book_consistent self"
  shows "\<exists>self'. update_trade_tick self tick = Inr self' \<and> book_consistent self'"
  using assms
  unfolding update_trade_tick_def update_bid_def update_ask_def book_consistent_def Let_def
  by (auto split: AggressorSide.splits option.splits)

text \<open>
  Claim C3, amended: on a book the class has made, \<^verbatim>\<open>_update_trade_tick\<close> returns, and
  a trade tick with a SELL aggressor sets the bid to the trade's price
  and size and leaves the ask's size; one with a BUY aggressor sets the ask to the trade's
  price and size and leaves the bid's size. If the touched side then crosses or meets the
  other (bid >= ask), the other side's price is set to the touched side's price, that is,
  the ask becomes the larger of the old ask and the trade price (SELL), the bid the smaller
  of the old bid and the trade price (BUY). Afterwards bid <= ask: the bid is never above
  the ask, and the two are equal where the rule fired. In particular from bid 1.00 /
  ask 1.01, a trade with a BUY aggressor at 1.02 leaves ask 1.02 and bid 1.00. Prices and
  sizes are those the book holds, the doubles of the ticks' prices and sizes.
\<close>

theorem l1_trade_tick_update:
  assumes "book_consistent self"
  shows "(\<exists>self'. update_trade_tick self tick = Inr self' \<and> book_consistent self' \<and>
          (aggressor_side tick = AggressorSide_SELL \<longrightarrow>
            bid_price self' = Some (Price_as_double (trade_price tick)) \<and>
            bid_qty self' = Some (Quantity_as_double (trade_size tick)) \<and>
            ask_qty self' = ask_qty self \<and>
            ask_price self'
              = map_option (max (Price_as_double (trade_price tick))) (ask_price self))
       \<and> (aggressor_side tick = AggressorSide_BUY \<longrightarrow>
            ask_price self' = Some (Price_as_double (trade_price tick)) \<and>
            ask_qty self' = Some (Quantity_as_double (trade_size tick)) \<and>
            bid_qty self' = bid_qty self \<and>
            bid_price self'
              = map_option (min (Price_as_double (trade_price tick))) (bid_price self))
       \<and> (aggressor_side tick \<noteq> AggressorSide_UNKNOWN \<longrightarrow>
            (case (bid_price self', ask_price self') of
               (Some b, Some a) \<Rightarrow> b \<le> a | _ \<Rightarrow> True)))
     \<and> map_sum id book_observed
         (quote_then_trade SimulatedL1OrderBook_init quote_100_101
            (trade_at AggressorSide_BUY (102 / 100)))
       = Inr (Some (round_to_double 1), Some (round_to_double (102 / 100)), False)"
proof -
  from update_trade_tick_returns [OF assms, of tick] obtain self'
    where r: "update_trade_tick self tick = Inr self'" "book_consistent self'" by blast
  from l1_trade_tick_general [OF r(1)] r l1_trade_tick_scenario show ?thesis by blast
qed

lemma quoted_book_consistent: "book_consistent quoted_book"
  by (simp add: quoted_book_def book_example_defs book_defs state_after_def
      book_consistent_def)

theorem l1_trade_tick_update_witness:
  "bid_price (state_after (update_trade_tick quoted_book (trade_at AggressorSide_SELL (102 / 100))))
     = Some (round_to_double (102 / 100))
   \<and> ask_price (state_after (update_trade_tick quoted_book (trade_at AggressorSide_SELL (102 / 100))))
     = Some (round_to_double (102 / 100))
   \<and> ask_qty (state_after (update_trade_tick quoted_book (trade_at AggressorSide_SELL (102 / 100))))
     = Some (round_to_double 1)"
proof -
  let ?t = "trade_at AggressorSide_SELL (102 / 100)"
  let ?r = "update_trade_tick quoted_book ?t"
  have facts: "aggressor_side ?t = AggressorSide_SELL"
    "Price_as_double (trade_price ?t) = round_to_double (102 / 100)"
    "ask_price quoted_book = Some (round_to_double (101 / 100))"
    "ask_qty quoted_book = Some (round_to_double 1)"
    by (simp_all add: quoted_book_def book_example_defs book_defs state_after_def)
  from l1_trade_tick_update [OF quoted_book_consistent, of ?t] facts show ?thesis
    by (auto simp: state_after_def round_to_double_values)
qed

section \<open>Properties of the stop-limit order\<close>

lemma run_handlers_is_triggered:
  "is_triggered (run_handlers self es) \<longleftrightarrow> is_triggered self \<or> (\<exists>e. Triggered e \<in> set es)"
proof (induction es arbitrary: self)
  case Nil
  then show ?case by simp
next
  case (Cons ev es)
  then show ?case
    by (cases ev)
      (auto simp: StopLimitOrder_updated_def StopLimitOrder_triggered_def Let_def)
qed

text \<open>
  Claim C9: for a stop-limit order, constructed and then taken through any sequence of
  its \<^verbatim>\<open>_updated\<close> and \<^verbatim>\<open>_triggered\<close> handlers, an \<^verbatim>\<open>OrderUpdated\<close> event that comes
  before any \<^verbatim>\<open>OrderTriggered\<close> event (\<open>is_triggered\<close> false) sets the trigger price to the
  event's price and leaves the limit price; one that comes after a trigger
  (\<open>is_triggered\<close> true) sets the limit price and leaves the trigger. The same holds of
  \<^verbatim>\<open>_updated\<close> on any order, by its \<open>is_triggered\<close> flag.
\<close>

theorem stop_limit_update_routing:
  assumes "StopLimitOrder_init qty p t post_only disp = Inr order0"
    and "self = run_handlers order0 es"
  shows "((\<forall>e. Triggered e \<notin> set es) \<longrightarrow>
            \<not> is_triggered self \<and>
            trigger (StopLimitOrder_updated self event) = upd_price event \<and>
            limit_price (StopLimitOrder_updated self event) = limit_price self)
       \<and> ((\<exists>e. Triggered e \<in> set es) \<longrightarrow>
            is_triggered self \<and>
            limit_price (StopLimitOrder_updated self event) = upd_price event \<and>
            trigger (StopLimitOrder_updated self event) = trigger self)
       \<and> (\<not> is_triggered any_order \<longrightarrow>
            trigger (StopLimitOrder_updated any_order event) = upd_price event \<and>
            limit_price (StopLimitOrder_updated any_order event) = limit_price any_order)
       \<and> (is_triggered any_order \<longrightarrow>
            limit_price (StopLimitOrder_updated any_order event) = upd_price event \<and>
            trigger (StopLimitOrder_updated any_order event) = trigger any_order)"
proof -
  have "\<not> is_triggered order0"
    using assms(1) by (auto simp: StopLimitOrder_init_def split: if_splits)
  then have "is_triggered self \<longleftrightarrow> (\<exists>e. Triggered e \<in> set es)"
    by (simp add: assms(2) run_handlers_is_triggered)
  then show ?thesis
    by (auto simp: StopLimitOrder_updated_def Let_def)
qed

theorem stop_limit_update_routing_witness:
  "trigger (StopLimitOrder_updated stop_limit_order (order_updated 98)) = px 98
   \<and> limit_price (StopLimitOrder_updated stop_limit_order (order_updated 98)) = px 100
   \<and> limit_price (StopLimitOrder_updated
        (run_handlers stop_limit_order [Triggered \<lparr>trg_ts_event = 1\<rparr>]) (order_updated 98))
     = px 98
   \<and> trigger (StopLimitOrder_updated
        (run_handlers stop_limit_order [Triggered \<lparr>trg_ts_event = 1\<rparr>]) (order_updated 98))
     = px 99"
proof -
  have init: "StopLimitOrder_init (sz 10) (px 100) (px 99) False None = Inr stop_limit_order"
    by (simp add: stop_limit_order_def StopLimitOrder_init_def)
  have facts: "limit_price stop_limit_order = px 100" "trigger stop_limit_order = px 99"
    "upd_price (order_updated 98) = px 98"
    "trigger (run_handlers stop_limit_order [Triggered \<lparr>trg_ts_event = 1\<rparr>]) = px 99"
    by (simp_all add: stop_limit_order_def StopLimitOrder_init_def order_updated_def
        StopLimitOrder_triggered_def)
  from stop_limit_update_routing [OF init refl, of "[]" "order_updated 98"]
    stop_limit_update_routing
      [OF init refl, of "[Triggered \<lparr>trg_ts_event = 1\<rparr>]" "order_updated 98"]
    facts
  show ?thesis by simp
qed


end
